theory Spec2Isabelle
  imports Complex_Main "HOL-Library.Word"
begin

section \<open>JavaScript values\<close>

text \<open>
  The values the two components inspect. A number is a 32-bit signed integer, which
  JavaScript holds exactly and prints in plain decimal digits; numbers with a fraction or
  beyond that range are not values of the model. An object is its list of own enumerable
  properties, the first binding of a key being the one in force; an \<open>Error\<close> instance is
  its name and its message.
\<close>

datatype jsval =
    JUndefined
  | JNull
  | JBool bool
  | JNum "32 word"
  | JStr string
  | JError string string
  | JObj "(string \<times> jsval) list"

datatype error = TypeError string | Error string

text \<open>Truthiness, as \<open>&&\<close>, \<open>||\<close> and \<open>if\<close> test it.\<close>

fun truthy :: "jsval \<Rightarrow> bool" where
  "truthy JUndefined = False"
| "truthy JNull = False"
| "truthy (JBool b) = b"
| "truthy (JNum n) = (n \<noteq> 0)"
| "truthy (JStr s) = (s \<noteq> [])"
| "truthy (JError n m) = True"
| "truthy (JObj ps) = True"

text \<open>\<open>typeof v === 'object'\<close>: objects and, as in JavaScript, \<open>null\<close>.\<close>

fun typeof_object :: "jsval \<Rightarrow> bool" where
  "typeof_object JNull = True"
| "typeof_object (JError n m) = True"
| "typeof_object (JObj ps) = True"
| "typeof_object v = False"

text \<open>
  Property read \<open>v.k\<close>. Reading a property of \<open>undefined\<close> or \<open>null\<close> throws a
  \<open>TypeError\<close>; a primitive has none of the properties this program reads.
\<close>

fun get_prop :: "jsval \<Rightarrow> string \<Rightarrow> error + jsval" where
  "get_prop JUndefined k = Inl (TypeError ''Cannot read properties of undefined'')"
| "get_prop JNull k = Inl (TypeError ''Cannot read properties of null'')"
| "get_prop (JObj ps) k = Inr (case map_of ps k of None \<Rightarrow> JUndefined | Some v \<Rightarrow> v)"
| "get_prop (JError n m) k =
     Inr (if k = ''message'' then JStr m else if k = ''name'' then JStr n else JUndefined)"
| "get_prop v k = Inr JUndefined"

text \<open>\<open>a || b\<close> on values already computed.\<close>

definition js_or :: "jsval \<Rightarrow> jsval \<Rightarrow> jsval" where
  "js_or a b = (if truthy a then a else b)"

text \<open>Array read \<open>xs[i]\<close>: \<open>undefined\<close> outside the array.\<close>

definition index :: "'a list \<Rightarrow> int \<Rightarrow> 'a option" where
  "index xs i = (if 0 \<le> i \<and> i < int (length xs) then Some (xs ! nat i) else None)"

text \<open>
  The remainder operator \<open>a % b\<close> on integral numbers: the sign follows the dividend, and
  the result is \<open>NaN\<close> (here \<open>None\<close>) when the divisor is \<open>0\<close>.
\<close>

definition js_rem :: "int \<Rightarrow> int \<Rightarrow> int option" where
  "js_rem a b =
     (if b = 0 then None
      else if 0 \<le> a then Some (a mod \<bar>b\<bar>) else Some (- ((- a) mod \<bar>b\<bar>)))"

section \<open>SelectPrompt\<close>

text \<open>
  A normalised choice, built by the constructor from a descriptor. Every field holds
  whatever value the descriptor expression evaluates to.
\<close>

record choice =
  title :: jsval
  val :: jsval
  selected :: jsval
  disabled :: jsval

text \<open>
  What the prompt asks of its base class and of the output stream, in call order.
  \<open>Render\<close> stands for one drawing of the prompt line and of the choice lines.
\<close>

datatype prompt_event = Bell | Fire | Render | Write string | Close

text \<open>The prompt. The field \<open>finished\<close> is the source's \<open>done\<close>, \<open>vals\<close> its \<open>values\<close> and
  \<open>current\<close> its \<open>value\<close>; \<open>done\<close> and \<open>aborted\<close>, unset by the constructor, read as false.\<close>

record select_prompt =
  msg :: string
  hint :: string
  warn :: string
  cursor :: int
  vals :: "choice list"
  current :: jsval
  finished :: bool
  aborted :: bool
  closed :: bool
  trace :: "prompt_event list"

text \<open>The constructor's options: \<open>initial\<close>, \<open>hint\<close> and \<open>warn\<close> may be absent.\<close>

record select_opts =
  message :: string
  o_hint :: "string option"
  o_warn :: "string option"
  initial :: "int option"
  choices :: "jsval list"

text \<open>
  The base class \<open>Prompt\<close> is not among the sources. Its primitives are recorded in the
  trace.

  Modelled from the spec: \<open>bell()\<close> signals a rejected action and touches no prompt state;
  \<open>fire()\<close> is the change notification; \<open>close()\<close> releases the input and marks the prompt
  closed, which \<open>render\<close> tests.
\<close>

definition emit :: "prompt_event \<Rightarrow> select_prompt \<Rightarrow> select_prompt" where
  "emit e p = p\<lparr>trace := trace p @ [e]\<rparr>"

definition bell :: "select_prompt \<Rightarrow> select_prompt" where
  "bell p = emit Bell p"

definition fire :: "select_prompt \<Rightarrow> select_prompt" where
  "fire p = emit Fire p"

definition close :: "select_prompt \<Rightarrow> select_prompt" where
  "close p = (emit Close p)\<lparr>closed := True\<rparr>"

definition out_write :: "string \<Rightarrow> select_prompt \<Rightarrow> select_prompt" where
  "out_write s p = emit (Write s) p"


text \<open>Sequencing of computations that may throw.\<close>

definition bind :: "error + 'a \<Rightarrow> ('a \<Rightarrow> error + 'b) \<Rightarrow> error + 'b" where
  "bind r f = (case r of Inl e \<Rightarrow> Inl e | Inr x \<Rightarrow> f x)"

text \<open>\<open>v && v.k\<close>: the property is read only when \<open>v\<close> is truthy.\<close>

definition and_prop :: "jsval \<Rightarrow> string \<Rightarrow> error + jsval" where
  "and_prop v k = (if truthy v then get_prop v k else Inr v)"

text \<open>
  One element of \<open>opts.choices.map(...)\<close>, field by field:
  \<open>title: v && (v.title || v.value || v)\<close>,
  \<open>value: typeof v === 'object' ? v.value : v\<close> (which throws for \<open>null\<close>),
  \<open>selected: v && v.selected\<close>, \<open>disabled: v && v.disabled\<close>.
\<close>

definition normalize :: "jsval \<Rightarrow> error + choice" where
  "normalize v =
     bind (if truthy v
           then bind (get_prop v ''title'') (\<lambda>t.
                  if truthy t then Inr t
                  else bind (get_prop v ''value'') (\<lambda>w. Inr (js_or w v)))
           else Inr v) (\<lambda>t.
     bind (if typeof_object v then get_prop v ''value'' else Inr v) (\<lambda>w.
     bind (and_prop v ''selected'') (\<lambda>s.
     bind (and_prop v ''disabled'') (\<lambda>d.
       Inr \<lparr>title = t, val = w, selected = s, disabled = d\<rparr>))))"

fun normalize_all :: "jsval list \<Rightarrow> error + choice list" where
  "normalize_all [] = Inr []"
| "normalize_all (v # vs) =
     bind (normalize v) (\<lambda>c. bind (normalize_all vs) (\<lambda>cs. Inr (c # cs)))"

text \<open>The getter \<open>selection\<close>: \<open>this.values[this.cursor]\<close>, \<open>undefined\<close> out of range.\<close>

definition selection :: "select_prompt \<Rightarrow> choice option" where
  "selection p = index (vals p) (cursor p)"

text \<open>
  \<open>render()\<close>: nothing once the prompt is closed, one drawing otherwise. The prompt line
  reads \<open>this.selection.title\<close> or \<open>this.selection.disabled\<close>, which throws when the cursor
  is on no choice.
\<close>

definition render :: "select_prompt \<Rightarrow> error + select_prompt" where
  "render p =
     (if closed p then Inr p
      else (case selection p of
              None \<Rightarrow> Inl (TypeError ''Cannot read properties of undefined'')
            | Some c \<Rightarrow> Inr (emit Render p)))"

text \<open>\<open>given || d\<close> on a string that may be absent: the empty string is falsy.\<close>

definition or_default :: "string option \<Rightarrow> string \<Rightarrow> string" where
  "or_default given d = (case given of None \<Rightarrow> d | Some h \<Rightarrow> if h = [] then d else h)"

text \<open>
  The constructor. \<open>opts.initial || 0\<close> is the cursor; the initial value is read from the
  caller's descriptor, \<open>opts.choices[this.cursor].value\<close>, not from the normalised list.
  The last statement draws the prompt.
\<close>

definition construct :: "select_opts \<Rightarrow> error + select_prompt" where
  "construct opts =
     (let c = (case initial opts of None \<Rightarrow> 0 | Some i \<Rightarrow> i) in
      bind (normalize_all (choices opts)) (\<lambda>cs.
      bind (get_prop (case index (choices opts) c of None \<Rightarrow> JUndefined | Some d \<Rightarrow> d) ''value'')
        (\<lambda>w. render
          \<lparr>msg = message opts,
           hint = or_default (o_hint opts) ''- Use arrow-keys. Return to submit.'',
           warn = or_default (o_warn opts) ''- This option is disabled'',
           cursor = c, vals = cs, current = w,
           finished = False, aborted = False, closed = False, trace = []\<rparr>)))"


text \<open>\<open>moveCursor(n)\<close>: reading \<open>.value\<close> of a missing choice throws after the cursor is set.\<close>

definition moveCursor :: "int \<Rightarrow> select_prompt \<Rightarrow> error + select_prompt" where
  "moveCursor n p =
     (case index (vals p) n of
        None \<Rightarrow> Inl (TypeError ''Cannot read properties of undefined'')
      | Some c \<Rightarrow> Inr (fire (p\<lparr>cursor := n, current := val c\<rparr>)))"

text \<open>
  \<open>abort()\<close> and \<open>submit()\<close>: flags, notification, final drawing, a newline, close; a
  drawing that throws leaves the newline and the close undone. \<open>submit()\<close> reads
  \<open>this.selection.disabled\<close>, which throws when the cursor is on no choice, and only rings
  the bell when that is truthy.
\<close>

definition abort :: "select_prompt \<Rightarrow> error + select_prompt" where
  "abort p =
     bind (render (fire (p\<lparr>finished := True, aborted := True\<rparr>)))
       (\<lambda>q. Inr (close (out_write [CHR 10] q)))"

definition submit :: "select_prompt \<Rightarrow> error + select_prompt" where
  "submit p =
     (case selection p of
        None \<Rightarrow> Inl (TypeError ''Cannot read properties of undefined'')
      | Some c \<Rightarrow>
          if \<not> truthy (disabled c)
          then bind (render (fire (p\<lparr>finished := True, aborted := False\<rparr>)))
                 (\<lambda>q. Inr (close (out_write [CHR 10] q)))
          else Inr (bell p))"

text \<open>
  The navigation methods. \<open>last_choice\<close> is the source's \<open>last()\<close> and \<open>next_choice\<close> its
  \<open>next()\<close>. \<open>up()\<close> and \<open>down()\<close> return from the bell without moving or drawing.
\<close>

definition reset :: "select_prompt \<Rightarrow> error + select_prompt" where
  "reset p = bind (moveCursor 0 p) (\<lambda>q. render (fire q))"

definition first :: "select_prompt \<Rightarrow> error + select_prompt" where
  "first p = bind (moveCursor 0 p) render"

definition last_choice :: "select_prompt \<Rightarrow> error + select_prompt" where
  "last_choice p = bind (moveCursor (int (length (vals p)) - 1) p) render"

definition up :: "select_prompt \<Rightarrow> error + select_prompt" where
  "up p =
     (if cursor p = 0 then Inr (bell p)
      else bind (moveCursor (cursor p - 1) p) render)"

definition down :: "select_prompt \<Rightarrow> error + select_prompt" where
  "down p =
     (if cursor p = int (length (vals p)) - 1 then Inr (bell p)
      else bind (moveCursor (cursor p + 1) p) render)"

definition next_choice :: "select_prompt \<Rightarrow> error + select_prompt" where
  "next_choice p =
     (case js_rem (cursor p + 1) (int (length (vals p))) of
        None \<Rightarrow> Inl (TypeError ''Cannot read properties of undefined'')
      | Some n \<Rightarrow> bind (moveCursor n p) render)"

text \<open>The handler \<open>_(c, key)\<close> of unbound keys: the space bar submits.\<close>

definition on_char :: "char \<Rightarrow> select_prompt \<Rightarrow> error + select_prompt" where
  "on_char c p = (if c = CHR '' '' then submit p else Inr p)"

text \<open>The number of bells among the events.\<close>

definition bells :: "prompt_event list \<Rightarrow> nat" where
  "bells es = length (filter (\<lambda>e. e = Bell) es)"

section \<open>Spinner\<close>

subsection \<open>Strings\<close>

text \<open>\<open>String(v)\<close>, the conversion that \<open>+\<close> applies to a non-string operand.\<close>

fun nat_string :: "nat \<Rightarrow> string" where
  "nat_string n =
     (if n < 10 then [''0123456789'' ! n]
      else nat_string (n div 10) @ [''0123456789'' ! (n mod 10)])"

declare nat_string.simps [simp del]

fun to_string :: "jsval \<Rightarrow> string" where
  "to_string JUndefined = ''undefined''"
| "to_string JNull = ''null''"
| "to_string (JBool b) = (if b then ''true'' else ''false'')"
| "to_string (JNum n) =
     (if sint n < 0 then ''-'' @ nat_string (nat (- sint n)) else nat_string (nat (sint n)))"
| "to_string (JStr s) = s"
| "to_string (JError n m) = (if n = [] then m else if m = [] then n else n @ '': '' @ m)"
| "to_string (JObj ps) = ''[object Object]''"

text \<open>\<open>s.split('\n')\<close>: the pieces between line feeds, one more than there are line feeds.\<close>

fun split_lines :: "string \<Rightarrow> string list" where
  "split_lines [] = [[]]"
| "split_lines (c # cs) =
     (if c = CHR 10 then [] # split_lines cs
      else (case split_lines cs of [] \<Rightarrow> [[c]] | l # ls \<Rightarrow> (c # l) # ls))"

text \<open>
  \<open>Math.ceil(a / b)\<close> for a width \<open>a\<close> and a positive column count \<open>b\<close>. Both are far
  below \<open>2^53\<close>, where the rounded quotient has the ceiling of the exact one.
\<close>

definition ceil_div :: "nat \<Rightarrow> nat \<Rightarrow> nat" where
  "ceil_div a b = (a + b - 1) div b"

subsection \<open>Data\<close>

text \<open>The output stream: whether it is a terminal, and its width if it reports one.\<close>

record stream =
  isTTY :: bool
  columns :: "nat option"

text \<open>
  A colour: one of the \<open>chalk\<close> functions held in \<open>COLORS\<close>, the name of a \<open>chalk\<close> style
  (\<open>chalk[name]\<close>), or a formatting function of the caller's, known only by a tag.
\<close>

datatype style = Cyan | Green | RedBold | Blue | Yellow | Named string | Formatter nat

datatype log_symbol = SymSuccess | SymError | SymWarning | SymInfo

text \<open>
  The symbol of a persisted line: one of \<open>logSymbols\<close>, the default (a space and U+2008), or a value
  supplied in the options, converted to a string by \<open>+\<close>.
\<close>

datatype symbol = LogSymbol log_symbol | BlankSymbol | SymbolValue jsval

text \<open>The colour of a persisted line: a style, or whatever value the options supplied.\<close>

datatype colour = Style style | Supplied jsval

text \<open>
  What the spinner does to the outside, in call order:
  \<open>WriteFrame c g t\<close> is \<open>stream.write(c(g) + ' ' + t)\<close>, with \<open>g\<close> absent when the
  frame read is \<open>undefined\<close>,
  \<open>WriteStatic t\<close> is \<open>stream.write(`- ${t}\n`)\<close>,
  \<open>WritePersist y c t\<close> is \<open>stream.write(y + sep + c(t + '\n'))\<close> with \<open>sep\<close> the character U+2008,
  \<open>MoveCursor dx dy\<close>, \<open>ClearLine\<close> and \<open>CursorTo x\<close> are the stream's methods,
  \<open>HideCursor\<close> and \<open>ShowCursor\<close> are \<open>cliCursor.hide\<close> and \<open>cliCursor.show\<close>,
  \<open>SetInterval ms\<close> and \<open>ClearInterval\<close> are the timer calls.
\<close>

datatype effect =
    WriteFrame style "string option" string
  | WriteStatic string
  | WritePersist symbol style string
  | MoveCursor int int
  | ClearLine
  | CursorTo nat
  | HideCursor
  | ShowCursor
  | SetInterval nat
  | ClearInterval

text \<open>An animation: \<open>frames\<close> and \<open>interval\<close>, either of which an object may lack.\<close>

record animation =
  a_frames :: "string list option"
  a_interval :: "nat option"

text \<open>
  What the module takes from its surroundings: the platform, the \<open>CI\<close> variable,
  \<open>process.stderr\<close>, the table \<open>cliSpinners\<close> (with its entries \<open>line\<close> and \<open>dots\<close>), the
  functions \<open>stripAnsi\<close> and \<open>wcwidth\<close>, and what the libraries \<open>chalk\<close> and
  \<open>log-symbols\<close> hold: \<open>chalk n\<close> says that \<open>n in chalk\<close> and that \<open>chalk[n]\<close> can be
  called; \<open>coloured c x\<close> is the string a colour returns for \<open>x\<close> (\<open>None\<close> for
  \<open>undefined\<close>); \<open>logSymbols\<close> are the four symbols; \<open>separator\<close> is the string of the
  one character U+2008.
\<close>

record env =
  win32 :: bool
  env_CI :: bool
  stderr :: stream
  cli_line :: animation
  cli_dots :: animation
  cliSpinners :: "string \<Rightarrow> animation option"
  stripAnsi :: "string \<Rightarrow> string"
  wcwidth :: "string \<Rightarrow> nat"
  chalk :: "string \<Rightarrow> bool"
  coloured :: "style \<Rightarrow> string option \<Rightarrow> string"
  logSymbols :: "log_symbol \<Rightarrow> string"
  separator :: string

text \<open>
  The spinner. \<open>label\<close> is the source's \<open>text\<close> and \<open>timer\<close> its \<open>id\<close> (\<open>None\<close> for
  \<open>null\<close>, otherwise the period of the running timer); \<open>frameIndex\<close> is \<open>None\<close> when it is
  \<open>NaN\<close>; \<open>effects\<close> lists what was done to the stream, the cursor and the timers.
\<close>

record spinner =
  frames :: "string list"
  color :: style
  hideCursor :: bool
  interval :: nat
  stream :: stream
  timer :: "nat option"
  frameIndex :: "nat option"
  isEnabled :: bool
  lastResult :: jsval
  label :: string
  lineCount :: nat
  linesToClear :: nat
  effects :: "effect list"

text \<open>The \<open>spinner\<close> option: absent, a name (any non-object value), or an object.\<close>

datatype spinner_option = NoSpinner | SpinnerName string | CustomSpinner animation

record options =
  o_text :: "string option"
  o_spinner :: spinner_option
  o_color :: "style option"
  o_hideCursor :: "bool option"
  o_interval :: "nat option"
  o_stream :: "stream option"
  o_isEnabled :: "bool option"

text \<open>The constructor's argument: a string, an options object, or nothing.\<close>

datatype spinner_arg = ArgString string | ArgOptions options | ArgNone

definition no_options :: options where
  "no_options =
     \<lparr>o_text = None, o_spinner = NoSpinner, o_color = None, o_hideCursor = None,
      o_interval = None, o_stream = None, o_isEnabled = None\<rparr>"

subsection \<open>The text setter\<close>

text \<open>\<open>this.stream.columns || 80\<close>.\<close>

definition columns_or_80 :: "stream \<Rightarrow> nat" where
  "columns_or_80 st = (case columns st of None \<Rightarrow> 80 | Some n \<Rightarrow> if n = 0 then 80 else n)"

text \<open>The \<open>reduce\<close> over the lines of \<open>stripAnsi('--' + value)\<close>.\<close>

definition count_lines :: "env \<Rightarrow> nat \<Rightarrow> string \<Rightarrow> nat" where
  "count_lines e cols v =
     foldl (\<lambda>count line. count + max 1 (ceil_div (wcwidth e line) cols)) 0
       (split_lines (stripAnsi e (''--'' @ v)))"

definition set_text :: "env \<Rightarrow> string \<Rightarrow> spinner \<Rightarrow> spinner" where
  "set_text e v s = s\<lparr>label := v, lineCount := count_lines e (columns_or_80 (stream s)) v\<rparr>"

subsection \<open>Construction\<close>

text \<open>\<open>a || b\<close> on numbers that may be absent: \<open>0\<close> is falsy.\<close>

definition num_or :: "nat option \<Rightarrow> nat \<Rightarrow> nat" where
  "num_or a b = (case a of None \<Rightarrow> b | Some n \<Rightarrow> if n = 0 then b else n)"

text \<open>
  The constructor, \<open>new Spinner(options)\<close>: the animation is resolved and checked for
  \<open>frames\<close> first; the text is set once the stream is known, then \<open>linesToClear\<close>.
\<close>

definition new_Spinner :: "env \<Rightarrow> spinner_arg \<Rightarrow> error + spinner" where
  "new_Spinner e arg =
     (let opts = (case arg of
                    ArgString t \<Rightarrow> no_options\<lparr>o_text := Some t\<rparr>
                  | ArgOptions given \<Rightarrow> given
                  | ArgNone \<Rightarrow> no_options);
          sp = (case o_spinner opts of
                  CustomSpinner a \<Rightarrow> a
                | SpinnerName n \<Rightarrow>
                    if win32 e then cli_line e
                    else (case cliSpinners e n of None \<Rightarrow> cli_dots e | Some a \<Rightarrow> a)
                | NoSpinner \<Rightarrow> if win32 e then cli_line e else cli_dots e)
      in case a_frames sp of
           None \<Rightarrow> Inl (Error ''Spinner must define `frames`'')
         | Some fs \<Rightarrow>
             (let st = (case o_stream opts of None \<Rightarrow> stderr e | Some x \<Rightarrow> x) in
              Inr ((set_text e (case o_text opts of None \<Rightarrow> [] | Some t \<Rightarrow> t)
                     \<lparr>frames = fs,
                      color = (case o_color opts of None \<Rightarrow> Cyan | Some c \<Rightarrow> c),
                      hideCursor = (case o_hideCursor opts of None \<Rightarrow> True | Some h \<Rightarrow> h),
                      interval = num_or (o_interval opts) (num_or (a_interval sp) 100),
                      stream = st,
                      timer = None,
                      frameIndex = Some 0,
                      isEnabled = (case o_isEnabled opts of
                                     None \<Rightarrow> isTTY st \<and> \<not> env_CI e
                                   | Some b \<Rightarrow> b),
                      lastResult = JNull,
                      label = [], lineCount = 0, linesToClear = 0, effects = []\<rparr>)
                   \<lparr>linesToClear := 0\<rparr>)))"

subsection \<open>Drawing\<close>

definition isSpinning :: "spinner \<Rightarrow> bool" where
  "isSpinning s = (timer s \<noteq> None)"

definition do_effects :: "effect list \<Rightarrow> spinner \<Rightarrow> spinner" where
  "do_effects es s = s\<lparr>effects := effects s @ es\<rparr>"

text \<open>
  \<open>frame()\<close>: the glyph at the frame index (\<open>undefined\<close> when there is none), in the
  spinner's colour, then the index advanced modulo the number of frames.
\<close>

definition glyph :: "spinner \<Rightarrow> string option" where
  "glyph s =
     (case frameIndex s of
        None \<Rightarrow> None
      | Some i \<Rightarrow> if i < length (frames s) then Some (frames s ! i) else None)"

definition advance :: "spinner \<Rightarrow> spinner" where
  "advance s =
     s\<lparr>frameIndex :=
         (case frameIndex s of
            None \<Rightarrow> None
          | Some i \<Rightarrow> if length (frames s) = 0 then None
                      else Some (Suc i mod length (frames s)))\<rparr>"

definition frame :: "spinner \<Rightarrow> effect \<times> spinner" where
  "frame s = (WriteFrame (color s) (glyph s) (label s), advance s)"

text \<open>The body of the loop in \<open>clear()\<close>, for \<open>i\<close> from \<open>0\<close> up to \<open>n - 1\<close>.\<close>

definition erase_line :: "nat \<Rightarrow> effect list" where
  "erase_line i = (if 0 < i then [MoveCursor 0 (- 1)] else []) @ [ClearLine, CursorTo 0]"

definition erase_lines :: "nat \<Rightarrow> effect list" where
  "erase_lines n = concat (map erase_line [0..<n])"

text \<open>
  \<open>clear()\<close>, \<open>render()\<close> (here \<open>render_spinner\<close>), \<open>start(text)\<close> and \<open>stop()\<close>.
\<close>

definition clear :: "spinner \<Rightarrow> spinner" where
  "clear s =
     (if \<not> isEnabled s \<or> \<not> isTTY (stream s) then s
      else (do_effects (erase_lines (linesToClear s)) s)\<lparr>linesToClear := 0\<rparr>)"

definition render_spinner :: "spinner \<Rightarrow> spinner" where
  "render_spinner s =
     (let s1 = clear s;
          (f, s2) = frame s1;
          s3 = do_effects [f] s2
      in s3\<lparr>linesToClear := lineCount s3\<rparr>)"

definition start :: "env \<Rightarrow> string option \<Rightarrow> spinner \<Rightarrow> spinner" where
  "start e t s =
     (let s1 = (case t of None \<Rightarrow> s | Some v \<Rightarrow> if v = [] then s else set_text e v s) in
      if \<not> isEnabled s1 then do_effects [WriteStatic (label s1)] s1
      else if isSpinning s1 then s1
      else (let s2 = (if hideCursor s1 then do_effects [HideCursor] s1 else s1);
                s3 = render_spinner s2
            in (do_effects [SetInterval (interval s3)] s3)\<lparr>timer := Some (interval s3)\<rparr>))"

definition stop :: "spinner \<Rightarrow> spinner" where
  "stop s =
     (if \<not> isEnabled s then s
      else (let s1 = (do_effects [ClearInterval] s)\<lparr>timer := None, frameIndex := Some 0\<rparr>;
                s2 = clear s1
            in if hideCursor s2 then do_effects [ShowCursor] s2 else s2))"

subsection \<open>Persisted lines\<close>

text \<open>
  A call that mutates the spinner and may throw: the spinner is returned either way, as
  the caller's \<open>catch\<close> finds it.
\<close>

datatype outcome = Done spinner | Threw error spinner

text \<open>The options of \<open>stopAndPersist\<close>, each of which may be absent.\<close>

record persist_options =
  p_text :: "jsval option"
  p_symbol :: "symbol option"
  p_color :: "colour option"

text \<open>
  A property as \<open>_.merge\<close> sees it in a source object: one that is absent or \<open>undefined\<close>
  leaves the destination's value in place.
\<close>

definition merged :: "(string \<times> jsval) list \<Rightarrow> string \<Rightarrow> jsval option" where
  "merged ps k = (case map_of ps k of None \<Rightarrow> None | Some v \<Rightarrow> if v = JUndefined then None else Some v)"

text \<open>
  The common start of \<open>succeed\<close>, \<open>fail\<close>, \<open>warn\<close> and \<open>info\<close>: a string argument becomes
  \<open>{text: opts}\<close>, and the argument is merged over the symbol and the colour of the method.
  Values without enumerable properties (\<open>undefined\<close>, \<open>null\<close>, numbers, booleans, errors)
  merge nothing.
\<close>

definition own_props :: "jsval \<Rightarrow> (string \<times> jsval) list" where
  "own_props v = (case v of JStr t \<Rightarrow> [(''text'', JStr t)] | JObj ps \<Rightarrow> ps | _ \<Rightarrow> [])"

definition with_defaults :: "log_symbol \<Rightarrow> style \<Rightarrow> jsval \<Rightarrow> persist_options" where
  "with_defaults y c arg =
     \<lparr>p_text = merged (own_props arg) ''text'',
      p_symbol = Some (case merged (own_props arg) ''symbol'' of
                         None \<Rightarrow> LogSymbol y | Some v \<Rightarrow> SymbolValue v),
      p_color = Some (case merged (own_props arg) ''color'' of
                        None \<Rightarrow> Style c | Some v \<Rightarrow> Supplied v)\<rparr>"

text \<open>
  \<open>(opts.color in chalk ? chalk[opts.color] : opts.color)\<close> as the function to call. The
  operator \<open>in\<close> turns a supplied value into a property key, its string; when \<open>chalk\<close> has
  that key the property is called, otherwise the value itself is, and no value of the
  model is a function.
\<close>

definition callable :: "env \<Rightarrow> colour \<Rightarrow> error + style" where
  "callable e c =
     (case c of
        Style st \<Rightarrow> Inr st
      | Supplied v \<Rightarrow>
          if chalk e (to_string v) then Inr (Named (to_string v))
          else Inl (TypeError ''opts.color is not a function''))"

text \<open>
  \<open>stopAndPersist(opts)\<close>: stop, merge the options over the defaults (the text read after
  the stop), and write the line. The call of the colour is the one step that can throw.
\<close>

definition stopAndPersist :: "env \<Rightarrow> persist_options \<Rightarrow> spinner \<Rightarrow> outcome" where
  "stopAndPersist e opts s =
     (let s1 = stop s;
          t = (case p_text opts of None \<Rightarrow> JStr (label s1) | Some v \<Rightarrow> v);
          y = (case p_symbol opts of None \<Rightarrow> BlankSymbol | Some x \<Rightarrow> x);
          c = (case p_color opts of None \<Rightarrow> Style Cyan | Some x \<Rightarrow> x)
      in case callable e c of
           Inl err \<Rightarrow> Threw err s1
         | Inr st \<Rightarrow> Done (do_effects [WritePersist y st (to_string t)] s1))"

text \<open>The four terminal methods; \<open>warn_line\<close> is the source's \<open>warn\<close>.\<close>

definition succeed :: "env \<Rightarrow> jsval \<Rightarrow> spinner \<Rightarrow> outcome" where
  "succeed e arg s = stopAndPersist e (with_defaults SymSuccess Green arg) s"

definition fail :: "env \<Rightarrow> jsval \<Rightarrow> spinner \<Rightarrow> outcome" where
  "fail e arg s = stopAndPersist e (with_defaults SymError RedBold arg) s"

definition warn_line :: "env \<Rightarrow> jsval \<Rightarrow> spinner \<Rightarrow> outcome" where
  "warn_line e arg s = stopAndPersist e (with_defaults SymWarning Yellow arg) s"

definition info :: "env \<Rightarrow> jsval \<Rightarrow> spinner \<Rightarrow> outcome" where
  "info e arg s = stopAndPersist e (with_defaults SymInfo Blue arg) s"

subsection \<open>The wrapper \<open>promise\<close>\<close>

text \<open>How an asynchronous computation ends: with a value, with a reason, or never.\<close>

datatype settle = Resolves jsval | Rejects jsval | Hangs

text \<open>
  The argument \<open>action\<close>: a \<open>Promise\<close> in flight (not settled when the wrapper is called),
  an async function, or any other value, which the model takes not to be callable.
\<close>

datatype action = PromiseObj settle | AsyncFn settle | Plain jsval

definition instanceof_Promise :: "action \<Rightarrow> bool" where
  "instanceof_Promise a = (case a of PromiseObj st \<Rightarrow> True | _ \<Rightarrow> False)"

text \<open>
  \<open>isAsyncFunction\<close> of \<open>Utils.js\<close>: not \<open>null\<close> or \<open>undefined\<close>, and either tagged
  \<open>'AsyncFunction'\<close> under \<open>Symbol.toStringTag\<close> or an instance of \<open>AsyncFunction\<close>. An
  async function is both; a \<open>Promise\<close> is tagged \<open>'Promise'\<close>.
\<close>

definition isAsyncFunction :: "action \<Rightarrow> bool" where
  "isAsyncFunction a =
     (case a of
        AsyncFn st \<Rightarrow> True
      | PromiseObj st \<Rightarrow> False
      | Plain v \<Rightarrow> v \<noteq> JUndefined \<and> v \<noteq> JNull
                   \<and> get_prop v ''Symbol.toStringTag'' = Inr (JStr ''AsyncFunction''))"

text \<open>The state of a promise; a fulfilled one shows the spinner as it then is.\<close>

datatype promise_state = Pending | Fulfilled spinner | Rejected jsval

text \<open>
  What a call of the wrapper gives: \<open>returned\<close> is the promise the async function returns,
  \<open>chained\<close> is the promise \<open>action.then(...).catch(...)\<close> once the two continuations have
  run, or \<open>returned\<close> again where no such chain is built.
\<close>

record wrapper =
  returned :: promise_state
  chained :: promise_state

text \<open>A call either throws or returns; a call of an async function always returns.\<close>

datatype call = Throws jsval | Returns wrapper

definition thrown :: "error \<Rightarrow> jsval" where
  "thrown err = (case err of TypeError m \<Rightarrow> JError ''TypeError'' m | Error m \<Rightarrow> JError ''Error'' m)"

text \<open>\<open>x != null && String(x)\<close>.\<close>

definition override :: "jsval \<Rightarrow> jsval" where
  "override x = (if x = JUndefined \<or> x = JNull then JBool False else JStr (to_string x))"

text \<open>One tick of the timer: the callback is \<open>render\<close>.\<close>

definition tick :: "spinner \<Rightarrow> spinner" where
  "tick s = (if isSpinning s then render_spinner s else s)"

text \<open>
  \<open>spinner.fail((failure != null && String(failure)) || (spinner.lastResult = err).message)\<close>:
  the error is stored, and its message read, only when the override is falsy.
\<close>

definition on_failure :: "env \<Rightarrow> jsval \<Rightarrow> jsval \<Rightarrow> spinner \<Rightarrow> outcome" where
  "on_failure e failure err s =
     (if truthy (override failure) then fail e (override failure) s
      else (case get_prop err ''message'' of
              Inl te \<Rightarrow> Threw te (s\<lparr>lastResult := err\<rparr>)
            | Inr m \<Rightarrow> fail e m (s\<lparr>lastResult := err\<rparr>)))"

definition settled :: "outcome \<Rightarrow> promise_state" where
  "settled r = (case r of Done s \<Rightarrow> Fulfilled s | Threw err s \<Rightarrow> Rejected (thrown err))"

text \<open>
  The \<open>try\<close>/\<open>catch\<close> around \<open>await action()\<close>: the result is stored first, then
  \<open>succeed\<close> is called; whatever either throws goes to the \<open>catch\<close>. Calling a value that is
  not a function throws inside the \<open>try\<close>.
\<close>

definition awaited ::
    "env \<Rightarrow> jsval \<Rightarrow> jsval \<Rightarrow> settle \<Rightarrow> spinner \<Rightarrow> promise_state" where
  "awaited e success failure st s =
     (case st of
        Hangs \<Rightarrow> Pending
      | Resolves v \<Rightarrow>
          (case succeed e (js_or (override success) v) (s\<lparr>lastResult := v\<rparr>) of
             Done s' \<Rightarrow> Fulfilled s'
           | Threw err s' \<Rightarrow> settled (on_failure e failure (thrown err) s'))
      | Rejects r \<Rightarrow> settled (on_failure e failure r s))"

text \<open>
  The continuations of \<open>action.then(...).catch(...)\<close>: here the result is stored only when
  the success override is falsy.
\<close>

definition continued ::
    "env \<Rightarrow> jsval \<Rightarrow> jsval \<Rightarrow> settle \<Rightarrow> spinner \<Rightarrow> promise_state" where
  "continued e success failure st s =
     (case st of
        Hangs \<Rightarrow> Pending
      | Resolves v \<Rightarrow>
          (case (if truthy (override success) then succeed e (override success) s
                 else succeed e v (s\<lparr>lastResult := v\<rparr>)) of
             Done s' \<Rightarrow> Fulfilled s'
           | Threw err s' \<Rightarrow> settled (on_failure e failure (thrown err) s'))
      | Rejects r \<Rightarrow> settled (on_failure e failure r s))"

text \<open>
  The body of the async function, for \<open>n\<close> ticks of the timer before the action settles.
  The third argument is destructured, which throws when it is absent.
\<close>

definition promise_body ::
    "env \<Rightarrow> nat \<Rightarrow> action \<Rightarrow> spinner_arg \<Rightarrow> (jsval \<times> jsval) option \<Rightarrow> wrapper" where
  "promise_body e n a opts third =
     (case third of
        None \<Rightarrow>
          (let r = Rejected (JError ''TypeError'' ''Cannot destructure property of undefined'')
           in \<lparr>returned = r, chained = r\<rparr>)
      | Some (success, failure) \<Rightarrow>
          if \<not> (instanceof_Promise a \<or> isAsyncFunction a) then
            (let r = Rejected (JError ''TypeError''
                       ''Parameter `action` must be a Promise or an async function'')
             in \<lparr>returned = r, chained = r\<rparr>)
          else
            (case new_Spinner e opts of
               Inl err \<Rightarrow> (let r = Rejected (thrown err) in \<lparr>returned = r, chained = r\<rparr>)
             | Inr s0 \<Rightarrow>
                 (let s = start e None s0 in
                  if isAsyncFunction a then
                    (let r = awaited e success failure
                               (case a of
                                  AsyncFn st \<Rightarrow> st
                                | _ \<Rightarrow> Rejects (JError ''TypeError'' ''action is not a function''))
                               ((tick ^^ n) s)
                     in \<lparr>returned = r, chained = r\<rparr>)
                  else
                    \<lparr>returned = Fulfilled s,
                     chained = continued e success failure
                                 (case a of PromiseObj st \<Rightarrow> st | _ \<Rightarrow> Hangs)
                                 ((tick ^^ n) s)\<rparr>)))"

text \<open>The wrapper as its caller sees it: the call returns the promise of the body.\<close>

definition promise ::
    "env \<Rightarrow> nat \<Rightarrow> action \<Rightarrow> spinner_arg \<Rightarrow> (jsval \<times> jsval) option \<Rightarrow> call" where
  "promise e n a opts third = Returns (promise_body e n a opts third)"

text \<open>The text of the persisted line, when the last thing done was to write one.\<close>

definition persisted :: "promise_state \<Rightarrow> (symbol \<times> style \<times> string) option" where
  "persisted r =
     (case r of
        Fulfilled s \<Rightarrow>
          (if effects s = [] then None
           else (case last (effects s) of WritePersist y c t \<Rightarrow> Some (y, c, t) | _ \<Rightarrow> None))
      | _ \<Rightarrow> None)"

definition result_of :: "promise_state \<Rightarrow> jsval option" where
  "result_of r = (case r of Fulfilled s \<Rightarrow> Some (lastResult s) | _ \<Rightarrow> None)"

subsection \<open>Sequences of operations and the rows on the screen\<close>

text \<open>The operations on a spinner between which its state is observed.\<close>

datatype operation = OpSetText string | OpRender | OpStart "string option" | OpStop | OpClear

definition apply_op :: "env \<Rightarrow> spinner \<Rightarrow> operation \<Rightarrow> spinner" where
  "apply_op e s op =
     (case op of
        OpSetText v \<Rightarrow> set_text e v s
      | OpRender \<Rightarrow> render_spinner s
      | OpStart t \<Rightarrow> start e t s
      | OpStop \<Rightarrow> stop s
      | OpClear \<Rightarrow> clear s)"

definition run :: "env \<Rightarrow> operation list \<Rightarrow> spinner \<Rightarrow> spinner" where
  "run e ops s = foldl (apply_op e) s ops"

text \<open>
  The string each write hands to the stream; the other effects write nothing.
\<close>

definition symbol_text :: "env \<Rightarrow> symbol \<Rightarrow> string" where
  "symbol_text e y =
     (case y of
        LogSymbol x \<Rightarrow> logSymbols e x
      | BlankSymbol \<Rightarrow> '' '' @ separator e
      | SymbolValue v \<Rightarrow> to_string v)"

definition written :: "env \<Rightarrow> effect \<Rightarrow> string option" where
  "written e x =
     (case x of
        WriteFrame c g t \<Rightarrow> Some (coloured e c g @ '' '' @ t)
      | WriteStatic t \<Rightarrow> Some (''- '' @ t @ [CHR 10])
      | WritePersist y c t \<Rightarrow>
          Some (symbol_text e y @ separator e @ coloured e c (Some (t @ [CHR 10])))
      | _ \<Rightarrow> None)"

text \<open>
  A terminal \<open>c\<close> columns wide, as far as the spinner can tell: the row and the column of
  the cursor, and the rows that output extends over and that have not been cleared since.
  Rows are numbered downwards from the one the cursor starts on. Escape codes take no
  column; a line that reaches \<open>w\<close> columns takes \<open>max(1, ceil(w / c))\<close> rows, a full row not
  opening the next one before a further character comes; a line feed starts the next row.
\<close>

record terminal =
  row :: int
  col :: nat
  used :: "int set"

definition line_rows :: "nat \<Rightarrow> nat \<Rightarrow> nat" where
  "line_rows c w = max 1 (ceil_div w c)"

text \<open>
  Writing a string from where the cursor is: its first line continues the cursor's row,
  every further line starts at column 0.
\<close>

definition put :: "env \<Rightarrow> nat \<Rightarrow> string \<Rightarrow> terminal \<Rightarrow> terminal" where
  "put e c str T =
     (let ls = split_lines (stripAnsi e str);
          w0 = col T + wcwidth e (hd ls);
          n = line_rows c w0 + (\<Sum>l\<leftarrow>tl ls. line_rows c (wcwidth e l));
          wl = (if tl ls = [] then w0 else wcwidth e (last ls))
      in \<lparr>row = row T + int n - 1,
          col = (if wl = 0 then 0 else Suc ((wl - 1) mod c)),
          used = used T \<union> {row T ..< row T + int n}\<rparr>)"

text \<open>
  One effect on the terminal: a write puts its string; \<open>moveCursor(dx, dy)\<close> moves the
  cursor by that much; \<open>clearLine()\<close> clears the cursor's row and \<open>cursorTo(x)\<close> sets its
  column; hiding and showing the cursor and the timer calls change nothing that is counted.
\<close>

definition term_step :: "env \<Rightarrow> nat \<Rightarrow> terminal \<Rightarrow> effect \<Rightarrow> terminal" where
  "term_step e c T x =
     (case written e x of
        Some str \<Rightarrow> put e c str T
      | None \<Rightarrow>
          (case x of
             MoveCursor dx dy \<Rightarrow> T\<lparr>row := row T + dy, col := nat (int (col T) + dx)\<rparr>
           | ClearLine \<Rightarrow> T\<lparr>used := used T - {row T}\<rparr>
           | CursorTo k \<Rightarrow> T\<lparr>col := k\<rparr>
           | _ \<Rightarrow> T))"

definition home :: terminal where
  "home = \<lparr>row = 0, col = 0, used = {}\<rparr>"

text \<open>The terminal after a list of effects, the cursor starting on an unused row.\<close>

definition terminal_after :: "env \<Rightarrow> nat \<Rightarrow> effect list \<Rightarrow> terminal" where
  "terminal_after e c es = foldl (term_step e c) home es"

definition cleared_lines :: "effect list \<Rightarrow> nat" where
  "cleared_lines es = length (filter (\<lambda>x. x = ClearLine) es)"

text \<open>An effect that writes a frame.\<close>

definition is_frame :: "effect \<Rightarrow> bool" where
  "is_frame x = (case x of WriteFrame c g t \<Rightarrow> True | _ \<Rightarrow> False)"

text \<open>
  What stays as it is while a spinner runs on a terminal: it is enabled, its stream is a
  terminal that reports \<open>c > 0\<close> columns, it has frames, and each frame, coloured and
  followed by the separating space, measures on every line like the prefix \<open>--\<close> that the
  setter counts: the glyph is one column wide and the colour adds no column.
\<close>

definition steady :: "env \<Rightarrow> nat \<Rightarrow> spinner \<Rightarrow> bool" where
  "steady e c s \<longleftrightarrow>
     isEnabled s \<and> isTTY (stream s) \<and> columns (stream s) = Some c \<and> 0 < c \<and> frames s \<noteq> []
     \<and> (\<forall>g\<in>set (frames s). \<forall>t.
           map (wcwidth e) (split_lines (stripAnsi e (coloured e (color s) (Some g) @ '' '' @ t)))
           = map (wcwidth e) (split_lines (stripAnsi e (''--'' @ t))))"

text \<open>
  The cached count belongs to the current text, the frame index points at a frame, and the
  terminal holds exactly \<open>linesToClear\<close> used rows, from row 0 down, with the cursor on the
  last of them, or at the start of row 0 when there is none.
\<close>

definition coherent :: "env \<Rightarrow> nat \<Rightarrow> spinner \<Rightarrow> bool" where
  "coherent e c s \<longleftrightarrow>
     lineCount s = count_lines e c (label s)
     \<and> (\<exists>i. frameIndex s = Some i \<and> i < length (frames s))
     \<and> used (terminal_after e c (effects s)) = {0 ..< int (linesToClear s)}
     \<and> row (terminal_after e c (effects s))
         = (if linesToClear s = 0 then 0 else int (linesToClear s) - 1)
     \<and> (linesToClear s = 0 \<longrightarrow> col (terminal_after e c (effects s)) = 0)"

text \<open>
  A value that brings no colour of its own to \<open>succeed\<close> or \<open>fail\<close>: it has no \<open>color\<close>
  property, or an \<open>undefined\<close> one. Every primitive and every \<open>Error\<close> is such a value.
\<close>

definition colourless :: "jsval \<Rightarrow> bool" where
  "colourless v = (merged (own_props v) ''color'' = None)"

section \<open>Example inputs\<close>

text \<open>
  The choice list \<open>["a", "b", {title: "c", value: 3, disabled: true}]\<close> and a prompt over
  it after construction, with the cursor on a given index.
\<close>

definition demo_choices :: "jsval list" where
  "demo_choices =
     [JStr ''a'', JStr ''b'',
      JObj [(''title'', JStr ''c''), (''value'', JNum 3), (''disabled'', JBool True)]]"

definition demo_opts :: select_opts where
  "demo_opts =
     \<lparr>message = ''Pick'', o_hint = None, o_warn = None, initial = None,
      choices = demo_choices\<rparr>"

definition demo_prompt :: "int \<Rightarrow> select_prompt" where
  "demo_prompt i =
     \<lparr>msg = ''Pick'', hint = ''- Use arrow-keys. Return to submit.'',
      warn = ''- This option is disabled'', cursor = i,
      vals =
        [\<lparr>title = JStr ''a'', val = JStr ''a'', selected = JUndefined, disabled = JUndefined\<rparr>,
         \<lparr>title = JStr ''b'', val = JStr ''b'', selected = JUndefined, disabled = JUndefined\<rparr>,
         \<lparr>title = JStr ''c'', val = JNum 3, selected = JUndefined, disabled = JBool True\<rparr>],
      current = JUndefined, finished = False, aborted = False, closed = False,
      trace = [Render]\<rparr>"

text \<open>
  Two animations, a terminal of a given width, a pipe, and surroundings in which no text
  carries escape codes, every character is one column wide, colours return the text as it
  is (a stream without colour support), and the symbols are plain characters.
\<close>

definition demo_dots :: animation where
  "demo_dots = \<lparr>a_frames = Some [''.'', ''o'', ''O''], a_interval = Some 80\<rparr>"

definition demo_line :: animation where
  "demo_line = \<lparr>a_frames = Some [''-'', ''|''], a_interval = Some 130\<rparr>"

definition tty :: "nat \<Rightarrow> stream" where
  "tty c = \<lparr>isTTY = True, columns = Some c\<rparr>"

definition pipe :: stream where
  "pipe = \<lparr>isTTY = False, columns = None\<rparr>"

definition demo_env :: "stream \<Rightarrow> env" where
  "demo_env st =
     \<lparr>win32 = False, env_CI = False, stderr = st, cli_line = demo_line, cli_dots = demo_dots,
      cliSpinners = (\<lambda>n. if n = ''dots'' then Some demo_dots
                          else if n = ''line'' then Some demo_line else None),
      stripAnsi = (\<lambda>t. t), wcwidth = length,
      chalk = (\<lambda>n. n \<in> set [''cyan'', ''green'', ''red'', ''blue'', ''yellow'', ''gray'', ''bold'']),
      coloured = (\<lambda>c x. case x of None \<Rightarrow> ''undefined'' | Some t \<Rightarrow> t),
      logSymbols = (\<lambda>y. case y of SymSuccess \<Rightarrow> ''+'' | SymError \<Rightarrow> ''x''
                        | SymWarning \<Rightarrow> ''!'' | SymInfo \<Rightarrow> ''i''),
      separator = '' ''\<rparr>"

text \<open>The spinner \<open>new Spinner(t)\<close> in those surroundings, on a stream \<open>st\<close>.\<close>

definition demo_spinner :: "stream \<Rightarrow> bool \<Rightarrow> string \<Rightarrow> spinner" where
  "demo_spinner st en t =
     \<lparr>frames = [''.'', ''o'', ''O''], color = Cyan, hideCursor = True, interval = 80,
      stream = st, timer = None, frameIndex = Some 0, isEnabled = en, lastResult = JNull,
      label = t, lineCount = count_lines (demo_env st) (columns_or_80 st) t,
      linesToClear = 0, effects = []\<rparr>"

text \<open>
  A spinner with one frame eight columns wide, \<open>[======]\<close>, and the text \<open>abcdefgh\<close>, on
  a terminal of 10 columns.
\<close>

definition wide_options :: options where
  "wide_options =
     no_options\<lparr>o_text := Some ''abcdefgh'',
                o_spinner := CustomSpinner \<lparr>a_frames = Some [''[======]''], a_interval = None\<rparr>\<rparr>"

definition wide_spinner :: spinner where
  "wide_spinner =
     (demo_spinner (tty 10) True ''abcdefgh'')\<lparr>frames := [''[======]''], interval := 100\<rparr>"

section \<open>Properties of SelectPrompt\<close>

lemmas prompt_defs =
  selection_def index_def bell_def emit_def close_def out_write_def render_def fire_def
  moveCursor_def bind_def

text \<open>
  C1. With the cursor on a choice of the list, \<open>submit()\<close> on a disabled choice rings the
  bell once and changes nothing else, so \<open>done\<close> keeps its value; on an enabled choice it
  sets \<open>done\<close>, clears \<open>aborted\<close> and runs the closing sequence (notification, final
  drawing, newline, close) one single time.
\<close>

theorem submit_disabled_bell_enabled_done:
  assumes "0 \<le> cursor p" and "cursor p < int (length (vals p))"
  shows "(truthy (disabled (vals p ! nat (cursor p))) \<longrightarrow>
            submit p = Inr (p\<lparr>trace := trace p @ [Bell]\<rparr>))
       \<and> (\<not> truthy (disabled (vals p ! nat (cursor p))) \<longrightarrow>
            submit p =
              Inr (p\<lparr>finished := True, aborted := False, closed := True,
                     trace := trace p @ [Fire] @ (if closed p then [] else [Render])
                                @ [Write [CHR 10], Close]\<rparr>))"
  using assms by (simp add: submit_def prompt_defs)

theorem submit_disabled_bell_enabled_done_witness:
  "submit (demo_prompt 2) = Inr ((demo_prompt 2)\<lparr>trace := [Render, Bell]\<rparr>)
   \<and> submit (demo_prompt 1) =
       Inr ((demo_prompt 1)\<lparr>finished := True, aborted := False, closed := True,
              trace := [Render, Fire, Render, Write [CHR 10], Close]\<rparr>)"
  using submit_disabled_bell_enabled_done [of "demo_prompt 2"]
        submit_disabled_bell_enabled_done [of "demo_prompt 1"]
  by (simp add: demo_prompt_def)

text \<open>
  C2, evaluated on the code. For the bare scalars \<open>["a", "b", ...]\<close> and the default
  initial index, the normalised choice at the cursor has the value \<open>"a"\<close>, but the value the
  constructor exposes is \<open>undefined\<close>: it reads \<open>.value\<close> of the caller's descriptor.
\<close>

theorem construct_scalar_value_undefined:
  "map_sum id (\<lambda>p. (cursor p, val (vals p ! nat (cursor p)), current p)) (construct demo_opts)
     = Inr (0, JStr ''a'', JUndefined)"
  by (simp add: construct_def demo_opts_def demo_choices_def bind_def normalize_def and_prop_def
      js_or_def index_def render_def emit_def or_default_def selection_def)

text \<open>
  C8. \<open>up()\<close> with the cursor on index 0 and \<open>down()\<close> with the cursor on the last index
  ring the bell once and change nothing else; \<open>next()\<close> from any index of the list moves the
  cursor to \<open>(cursor + 1) mod len\<close>, updates the value, notifies, draws, and rings no bell.
\<close>

theorem up_down_stop_next_wraps:
  "(cursor p = 0 \<longrightarrow> up p = Inr (p\<lparr>trace := trace p @ [Bell]\<rparr>))
   \<and> (1 \<le> length (vals p) \<and> cursor p = int (length (vals p)) - 1 \<longrightarrow>
        down p = Inr (p\<lparr>trace := trace p @ [Bell]\<rparr>))
   \<and> (0 \<le> cursor p \<and> cursor p < int (length (vals p)) \<longrightarrow>
        next_choice p =
          Inr (p\<lparr>cursor := (cursor p + 1) mod int (length (vals p)),
                 current := val (vals p ! nat ((cursor p + 1) mod int (length (vals p)))),
                 trace := trace p @ [Fire] @ (if closed p then [] else [Render])\<rparr>)
        \<and> bells (trace p @ [Fire] @ (if closed p then [] else [Render])) = bells (trace p))"
proof (intro conjI impI)
  assume "cursor p = 0"
  then show "up p = Inr (p\<lparr>trace := trace p @ [Bell]\<rparr>)"
    by (simp add: up_def bell_def emit_def)
next
  assume "1 \<le> length (vals p) \<and> cursor p = int (length (vals p)) - 1"
  then show "down p = Inr (p\<lparr>trace := trace p @ [Bell]\<rparr>)"
    by (simp add: down_def bell_def emit_def)
next
  assume range: "0 \<le> cursor p \<and> cursor p < int (length (vals p))"
  let ?n = "(cursor p + 1) mod int (length (vals p))"
  have rem: "js_rem (cursor p + 1) (int (length (vals p))) = Some ?n"
    using range by (auto simp: js_rem_def)
  have "0 < int (length (vals p))"
    using range by linarith
  then have inside: "0 \<le> ?n \<and> ?n < int (length (vals p))"
    by simp
  then have "moveCursor ?n p = Inr (fire (p\<lparr>cursor := ?n, current := val (vals p ! nat ?n)\<rparr>))"
    by (simp add: moveCursor_def index_def)
  then show "next_choice p =
          Inr (p\<lparr>cursor := ?n, current := val (vals p ! nat ?n),
                 trace := trace p @ [Fire] @ (if closed p then [] else [Render])\<rparr>)"
    using inside
    by (simp add: next_choice_def rem fire_def render_def emit_def bind_def selection_def
        index_def)
next
  show "bells (trace p @ [Fire] @ (if closed p then [] else [Render])) = bells (trace p)"
    by (simp add: bells_def)
qed

theorem up_down_stop_next_wraps_witness:
  "up (demo_prompt 0) = Inr ((demo_prompt 0)\<lparr>trace := [Render, Bell]\<rparr>)
   \<and> down (demo_prompt 2) = Inr ((demo_prompt 2)\<lparr>trace := [Render, Bell]\<rparr>)
   \<and> next_choice (demo_prompt 2) =
       Inr ((demo_prompt 2)\<lparr>cursor := 0, current := JStr ''a'',
              trace := [Render, Fire, Render]\<rparr>)"
  using up_down_stop_next_wraps [of "demo_prompt 0"]
        up_down_stop_next_wraps [of "demo_prompt 2"]
  by (simp add: demo_prompt_def)

text \<open>
  The scenario of the specification on the example list: down twice reaches the disabled
  entry, where \<open>submit()\<close> only rings the bell; up, then \<open>submit()\<close>, ends the prompt with
  the value \<open>"b"\<close>.
\<close>

lemma scenario:
  "map_sum id (\<lambda>p. (cursor p, finished p, bells (trace p)))
     (bind (bind (bind (construct demo_opts) down) down) submit) = Inr (2, False, 1)
   \<and> map_sum id (\<lambda>p. (cursor p, finished p, aborted p, current p))
       (bind (bind (bind (bind (bind (construct demo_opts) down) down) submit) up) submit)
       = Inr (1, True, False, JStr ''b'')"
  by (simp add: construct_def demo_opts_def demo_choices_def normalize_def and_prop_def
      js_or_def or_default_def down_def up_def submit_def prompt_defs bells_def)

section \<open>Properties of Spinner\<close>

subsection \<open>Counting rows\<close>

lemma ceil_div_ceiling:
  assumes "0 < b"
  shows "ceil_div a b = nat \<lceil>real a / real b\<rceil>"
proof -
  define q where "q = (a + b - 1) div b"
  have up: "a \<le> q * b"
  proof -
    have "a + b - 1 < q * b + b"
      unfolding q_def using assms
      by (metis div_mult_mod_eq mod_less_divisor nat_add_left_cancel_less)
    with assms show ?thesis by linarith
  qed
  have lo: "q * b < a + b"
  proof -
    have "q * b \<le> a + b - 1" unfolding q_def by simp
    with assms show ?thesis by linarith
  qed
  have "\<lceil>real a / real b\<rceil> = int q"
  proof (rule ceiling_unique)
    have "real q * real b < real a + real b"
      using lo by (metis of_nat_add of_nat_less_iff of_nat_mult)
    then have "(real q - 1) * real b < real a" by (simp add: algebra_simps)
    then show "of_int (int q) - 1 < real a / real b"
      using assms by (simp add: pos_less_divide_eq)
    have "real a \<le> real q * real b"
      using up by (metis of_nat_le_iff of_nat_mult)
    then show "real a / real b \<le> of_int (int q)"
      using assms by (simp add: pos_divide_le_eq)
  qed
  then show ?thesis by (simp add: ceil_div_def q_def)
qed

lemma foldl_add_sum: "foldl (\<lambda>count line. count + f line) (a::nat) xs = a + sum_list (map f xs)"
  by (induction xs arbitrary: a) simp_all

lemma count_lines_sum:
  "count_lines e c v = (\<Sum>l\<leftarrow>split_lines (stripAnsi e (''--'' @ v)). max 1 (ceil_div (wcwidth e l) c))"
  by (simp add: count_lines_def foldl_add_sum)

lemma split_lines_not_Nil: "split_lines s \<noteq> []"
  by (induction s) (auto split: list.splits)

lemma count_lines_pos: "0 < count_lines e c v"
proof -
  obtain l ls where "split_lines (stripAnsi e (''--'' @ v)) = l # ls"
    using split_lines_not_Nil by (cases "split_lines (stripAnsi e (''--'' @ v))") auto
  then show ?thesis by (simp add: count_lines_sum max_def)
qed

subsection \<open>The rows on the terminal\<close>

lemma terminal_after_append:
  "terminal_after e c (es @ fs) = foldl (term_step e c) (terminal_after e c es) fs"
  by (simp add: terminal_after_def)

lemma erase_lines_Suc: "erase_lines (Suc n) = erase_lines n @ erase_line n"
  by (simp add: erase_lines_def)

lemma cleared_erase_lines: "cleared_lines (erase_lines n) = n"
proof (induction n)
  case 0
  show ?case by (simp add: erase_lines_def cleared_lines_def)
next
  case (Suc n)
  then show ?case by (simp add: erase_lines_Suc cleared_lines_def erase_line_def)
qed

lemma term_erase_line_first:
  "foldl (term_step e c) \<lparr>row = int a, col = x, used = {0 ..< int a + 1}\<rparr> (erase_line 0)
   = \<lparr>row = int a, col = 0, used = {0 ..< int a}\<rparr>"
  by (auto simp: erase_line_def term_step_def written_def)

lemma term_erase_line_next:
  "foldl (term_step e c) \<lparr>row = r + 1, col = 0, used = {0 ..< r + 1}\<rparr> (erase_line (Suc m))
   = \<lparr>row = r, col = 0, used = {0 ..< r}\<rparr>"
  by (auto simp: erase_line_def term_step_def written_def)

lemma term_erase_lines:
  "m \<le> a \<Longrightarrow>
   foldl (term_step e c) \<lparr>row = int a, col = x, used = {0 ..< int a + 1}\<rparr> (erase_lines (Suc m))
   = \<lparr>row = int a - int m, col = 0, used = {0 ..< int a - int m}\<rparr>"
proof (induction m)
  case 0
  show ?case using term_erase_line_first [of e c a x] by (simp add: erase_lines_def)
next
  case (Suc m)
  then have "foldl (term_step e c) \<lparr>row = int a, col = x, used = {0 ..< int a + 1}\<rparr>
               (erase_lines (Suc m))
             = \<lparr>row = (int a - int (Suc m)) + 1, col = 0, used = {0 ..< (int a - int (Suc m)) + 1}\<rparr>"
    by simp
  then show ?case
    using term_erase_line_next [of e c "int a - int (Suc m)" m]
    by (simp only: erase_lines_Suc [of "Suc m"] foldl_append)
qed

lemma term_erase_all:
  assumes "used T = {0 ..< int k}"
    and "row T = (if k = 0 then 0 else int k - 1)"
    and "k = 0 \<longrightarrow> col T = 0"
  shows "foldl (term_step e c) T (erase_lines k) = home"
proof (cases k)
  case 0
  then have "T = home" using assms by (simp add: home_def)
  then show ?thesis using 0 by (simp add: erase_lines_def)
next
  case (Suc a)
  then have "T = \<lparr>row = int a, col = col T, used = {0 ..< int a + 1}\<rparr>"
    using assms by (intro terminal.equality) (simp_all add: add.commute)
  then have "foldl (term_step e c) T (erase_lines k)
             = foldl (term_step e c) \<lparr>row = int a, col = col T, used = {0 ..< int a + 1}\<rparr>
                 (erase_lines (Suc a))"
    using Suc by simp
  then show ?thesis using term_erase_lines [of a a e c "col T"] by (simp add: home_def)
qed

lemma put_home:
  "put e c str home =
     \<lparr>row = int (\<Sum>w\<leftarrow>map (wcwidth e) (split_lines (stripAnsi e str)). line_rows c w) - 1,
      col = col (put e c str home),
      used = {0 ..< int (\<Sum>w\<leftarrow>map (wcwidth e) (split_lines (stripAnsi e str)). line_rows c w)}\<rparr>"
proof -
  obtain l ls where "split_lines (stripAnsi e str) = l # ls"
    using split_lines_not_Nil by (cases "split_lines (stripAnsi e str)") auto
  then show ?thesis by (simp add: put_def home_def Let_def comp_def)
qed

lemma count_lines_rows:
  "count_lines e c v = (\<Sum>w\<leftarrow>map (wcwidth e) (split_lines (stripAnsi e (''--'' @ v))). line_rows c w)"
  by (simp add: count_lines_sum line_rows_def comp_def)

lemma stream_clear: "stream (clear s) = stream s"
  by (simp add: clear_def do_effects_def)

lemma label_clear: "label (clear s) = label s"
  by (simp add: clear_def do_effects_def)

lemma lineCount_clear: "lineCount (clear s) = lineCount s"
  by (simp add: clear_def do_effects_def)

lemma render_spinner_eq:
  "render_spinner s =
     (advance (clear s))\<lparr>effects := effects (clear s) @ [WriteFrame (color s) (glyph (clear s)) (label s)],
                          linesToClear := lineCount s\<rparr>"
  by (simp add: render_spinner_def frame_def do_effects_def advance_def Let_def clear_def)

lemma steady_clear: "steady e c (clear s) = steady e c s"
  by (simp add: steady_def clear_def do_effects_def)

lemma steady_set_text: "steady e c (set_text e v s) = steady e c s"
  by (simp add: steady_def set_text_def)

lemma steady_render: "steady e c (render_spinner s) = steady e c s"
  by (simp add: steady_def render_spinner_eq advance_def clear_def do_effects_def)

lemma steady_do_effects: "steady e c (do_effects es s) = steady e c s"
  by (simp add: steady_def do_effects_def)

lemma steady_timer: "steady e c (s\<lparr>timer := t\<rparr>) = steady e c s"
  by (simp add: steady_def)

lemma steady_start: "steady e c (start e t s) = steady e c s"
  by (simp add: start_def Let_def steady_set_text steady_render steady_do_effects steady_timer
      split: option.splits)

lemma steady_stop: "steady e c (stop s) = steady e c s"
  by (simp add: stop_def Let_def steady_clear steady_do_effects)
     (simp add: steady_def do_effects_def)

lemma steady_apply_op: "steady e c (apply_op e s op) = steady e c s"
  by (cases op)
     (simp_all add: apply_op_def steady_set_text steady_render steady_start steady_stop steady_clear)

lemma steady_run: "steady e c (run e ops s) = steady e c s"
  unfolding run_def by (induction ops arbitrary: s) (simp_all add: steady_apply_op)

lemma terminal_clear:
  assumes "steady e c s" and "coherent e c s"
  shows "terminal_after e c (effects (clear s)) = home"
  using assms term_erase_all [of "terminal_after e c (effects s)" "linesToClear s" e c]
  by (simp add: steady_def coherent_def clear_def do_effects_def terminal_after_append)

lemma coherent_clear:
  assumes "steady e c s" and "coherent e c s"
  shows "coherent e c (clear s)"
proof -
  have "linesToClear (clear s) = 0" using assms(1) by (simp add: steady_def clear_def)
  moreover have "lineCount (clear s) = count_lines e c (label (clear s))"
    using assms(2) by (simp add: coherent_def lineCount_clear label_clear)
  moreover have "\<exists>i. frameIndex (clear s) = Some i \<and> i < length (frames (clear s))"
    using assms(2) by (simp add: coherent_def clear_def do_effects_def)
  ultimately show ?thesis
    using terminal_clear [OF assms] by (simp add: coherent_def home_def)
qed

lemma coherent_set_text: "steady e c s \<Longrightarrow> coherent e c s \<Longrightarrow> coherent e c (set_text e v s)"
  by (simp add: coherent_def steady_def set_text_def columns_or_80_def)

lemma terminal_render:
  assumes "steady e c s" and "coherent e c s"
  shows "terminal_after e c (effects (render_spinner s))
         = \<lparr>row = int (lineCount s) - 1,
            col = col (terminal_after e c (effects (render_spinner s))),
            used = {0 ..< int (lineCount s)}\<rparr>"
proof -
  obtain i where i: "frameIndex s = Some i" "i < length (frames s)"
    using assms(2) by (auto simp: coherent_def)
  have g: "glyph (clear s) = Some (frames s ! i)"
    using i by (simp add: glyph_def clear_def do_effects_def)
  have "frames s ! i \<in> set (frames s)" using i by simp
  then have m: "map (wcwidth e) (split_lines (stripAnsi e
                  (coloured e (color s) (Some (frames s ! i)) @ '' '' @ label s)))
                = map (wcwidth e) (split_lines (stripAnsi e (''--'' @ label s)))"
    using assms(1) unfolding steady_def by blast
  have n: "lineCount s = (\<Sum>w\<leftarrow>map (wcwidth e) (split_lines (stripAnsi e
              (coloured e (color s) (Some (frames s ! i)) @ '' '' @ label s))). line_rows c w)"
    using assms(2) unfolding m by (simp add: coherent_def count_lines_rows)
  have t: "terminal_after e c (effects (render_spinner s))
           = put e c (coloured e (color s) (Some (frames s ! i)) @ '' '' @ label s) home"
    using terminal_clear [OF assms]
    by (simp add: render_spinner_eq terminal_after_append g term_step_def written_def)
  show ?thesis
    unfolding t n
    using put_home [of e c "coloured e (color s) (Some (frames s ! i)) @ '' '' @ label s"]
    by simp
qed

lemma coherent_render:
  assumes "steady e c s" and "coherent e c s"
  shows "coherent e c (render_spinner s)"
proof -
  have p: "0 < lineCount s" using assms(2) by (simp add: coherent_def count_lines_pos)
  have l: "linesToClear (render_spinner s) = lineCount s"
    and n: "lineCount (render_spinner s) = count_lines e c (label (render_spinner s))"
    using assms(2)
    by (simp_all add: render_spinner_eq coherent_def advance_def label_clear lineCount_clear)
  have f: "\<exists>i. frameIndex (render_spinner s) = Some i \<and> i < length (frames (render_spinner s))"
    using assms
    by (auto simp: render_spinner_eq coherent_def steady_def advance_def clear_def do_effects_def)
  have u: "used (terminal_after e c (effects (render_spinner s))) = {0 ..< int (lineCount s)}"
    and r: "row (terminal_after e c (effects (render_spinner s))) = int (lineCount s) - 1"
    using terminal_render [OF assms]
    by (metis terminal.select_convs(3), metis terminal.select_convs(1))
  show ?thesis using p l n f u r by (simp add: coherent_def)
qed

lemma term_step_silent:
  "x \<in> {HideCursor, ShowCursor, ClearInterval} \<or> (\<exists>n. x = SetInterval n) \<Longrightarrow> term_step e c T x = T"
  by (auto simp: term_step_def written_def)

lemma coherent_do_effects:
  "coherent e c s \<Longrightarrow> x \<in> {HideCursor, ShowCursor, ClearInterval} \<or> (\<exists>n. x = SetInterval n)
    \<Longrightarrow> coherent e c (do_effects [x] s)"
  by (simp add: coherent_def do_effects_def terminal_after_append term_step_silent)

lemma coherent_timer: "coherent e c s \<Longrightarrow> coherent e c (s\<lparr>timer := t\<rparr>)"
  by (simp add: coherent_def)

lemma coherent_start:
  assumes "steady e c s" and "coherent e c s"
  shows "coherent e c (start e t s)"
proof -
  define s1 where "s1 = (case t of None \<Rightarrow> s | Some v \<Rightarrow> if v = [] then s else set_text e v s)"
  have a: "steady e c s1" and b: "coherent e c s1"
    using assms by (auto simp: s1_def steady_set_text coherent_set_text split: option.splits)
  define s2 where "s2 = (if hideCursor s1 then do_effects [HideCursor] s1 else s1)"
  have a2: "steady e c s2" and b2: "coherent e c s2"
    using a b by (auto simp: s2_def steady_do_effects coherent_do_effects)
  have "coherent e c ((do_effects [SetInterval (interval (render_spinner s2))] (render_spinner s2))
          \<lparr>timer := Some (interval (render_spinner s2))\<rparr>)"
    by (intro coherent_timer coherent_do_effects coherent_render a2 b2) simp
  moreover have "isEnabled s1" using a by (simp add: steady_def)
  ultimately show ?thesis
    using b unfolding start_def s1_def [symmetric] Let_def s2_def [symmetric] by simp
qed

lemma coherent_stop:
  assumes "steady e c s" and "coherent e c s"
  shows "coherent e c (stop s)"
proof -
  define s1 where "s1 = (do_effects [ClearInterval] s)\<lparr>timer := None, frameIndex := Some 0\<rparr>"
  have a: "steady e c s1" using assms(1) by (simp add: s1_def steady_def do_effects_def)
  have "coherent e c (do_effects [ClearInterval] s)"
    using assms(2) by (intro coherent_do_effects) simp_all
  then have b: "coherent e c s1"
    using assms(1) by (simp add: s1_def coherent_def steady_def do_effects_def)
  have "coherent e c (clear s1)" using a b by (rule coherent_clear)
  then have "coherent e c (if hideCursor (clear s1) then do_effects [ShowCursor] (clear s1) else clear s1)"
    by (simp add: coherent_do_effects)
  moreover have "isEnabled s" using assms(1) by (simp add: steady_def)
  ultimately show ?thesis
    unfolding stop_def s1_def [symmetric] Let_def by simp
qed

lemma coherent_apply_op:
  "steady e c s \<Longrightarrow> coherent e c s \<Longrightarrow> coherent e c (apply_op e s op)"
  by (cases op)
     (simp_all add: apply_op_def coherent_set_text coherent_render coherent_start coherent_stop
        coherent_clear)

lemma coherent_run: "steady e c s \<Longrightarrow> coherent e c s \<Longrightarrow> coherent e c (run e ops s)"
  unfolding run_def
  by (induction ops arbitrary: s) (simp_all add: coherent_apply_op steady_apply_op)

lemma new_Spinner_fields:
  assumes "new_Spinner e arg = Inr s"
  shows "effects s = [] \<and> linesToClear s = 0 \<and> frameIndex s = Some 0
       \<and> lineCount s = count_lines e (columns_or_80 (stream s)) (label s)"
  using assms
  by (auto simp: new_Spinner_def Let_def set_text_def split: option.splits)

lemma coherent_new:
  assumes "new_Spinner e arg = Inr s" and "columns (stream s) = Some c" and "0 < c"
    and "frames s \<noteq> []"
  shows "coherent e c s"
  using new_Spinner_fields [OF assms(1)] assms(2,3,4)
  by (simp add: coherent_def terminal_after_def home_def columns_or_80_def)

subsection \<open>Persisted lines and the branches of the wrapper\<close>

lemma colourless_simps [simp]:
  "colourless JUndefined" "colourless JNull" "colourless (JBool b)" "colourless (JNum i)"
  "colourless (JStr t)" "colourless (JError k m)"
  by (simp_all add: colourless_def own_props_def merged_def)

lemma persist_colourless:
  assumes "colourless v"
  shows "\<exists>z t. stopAndPersist e (with_defaults y d v) s
                 = Done (do_effects [WritePersist z d t] (stop s))"
  using assms
  by (intro exI) (simp add: colourless_def stopAndPersist_def with_defaults_def callable_def Let_def)

lemma persist_string:
  "stopAndPersist e (with_defaults y d (JStr t)) s
     = Done (do_effects [WritePersist (LogSymbol y) d t] (stop s))"
  by (simp add: stopAndPersist_def with_defaults_def callable_def Let_def own_props_def merged_def)

lemma persist_no_text:
  "merged (own_props v) ''text'' = None \<Longrightarrow> merged (own_props v) ''symbol'' = None
    \<Longrightarrow> merged (own_props v) ''color'' = None \<Longrightarrow>
   stopAndPersist e (with_defaults y d v) s
     = Done (do_effects [WritePersist (LogSymbol y) d (label s)] (stop s))"
  by (simp add: stopAndPersist_def with_defaults_def callable_def Let_def stop_def do_effects_def clear_def)

lemma persisted_do_effects [simp]:
  "persisted (Fulfilled (do_effects [WritePersist z c t] s)) = Some (z, c, t)"
  by (simp add: persisted_def do_effects_def)

lemma lastResult_stop [simp]: "lastResult (stop s) = lastResult s"
  by (simp add: stop_def Let_def do_effects_def clear_def)

lemma lastResult_do_effects [simp]: "lastResult (do_effects es s) = lastResult s"
  by (simp add: do_effects_def)

lemma result_of_persist [simp]:
  "result_of (Fulfilled (do_effects es (stop s))) = Some (lastResult s)"
  by (simp add: result_of_def)

lemma override_truthy:
  "truthy (override x) \<Longrightarrow> override x = JStr (to_string x) \<and> to_string x \<noteq> []"
  by (simp add: override_def split: if_splits)

lemma valid_AsyncFn [simp]: "isAsyncFunction (AsyncFn st)" "\<not> isAsyncFunction (PromiseObj st)"
  "instanceof_Promise (PromiseObj st)"
  by (simp_all add: isAsyncFunction_def instanceof_Promise_def)

lemma body_AsyncFn:
  "new_Spinner e opts = Inr s0 \<Longrightarrow>
   promise_body e n (AsyncFn st) opts (Some (success, failure)) =
     (let r = awaited e success failure st ((tick ^^ n) (start e None s0)) in \<lparr>returned = r, chained = r\<rparr>)"
  by (simp add: promise_body_def Let_def)

lemma body_PromiseObj:
  "new_Spinner e opts = Inr s0 \<Longrightarrow>
   promise_body e n (PromiseObj st) opts (Some (success, failure)) =
     \<lparr>returned = Fulfilled (start e None s0),
      chained = continued e success failure st ((tick ^^ n) (start e None s0))\<rparr>"
  by (simp add: promise_body_def Let_def)

lemma awaited_string:
  "\<not> truthy (override success) \<Longrightarrow>
   awaited e success failure (Resolves (JStr v)) s =
     Fulfilled (do_effects [WritePersist (LogSymbol SymSuccess) Green v] (stop (s\<lparr>lastResult := JStr v\<rparr>)))"
  by (simp add: awaited_def succeed_def js_or_def persist_string)

lemma continued_string:
  "\<not> truthy (override success) \<Longrightarrow>
   continued e success failure (Resolves (JStr v)) s =
     Fulfilled (do_effects [WritePersist (LogSymbol SymSuccess) Green v] (stop (s\<lparr>lastResult := JStr v\<rparr>)))"
  by (simp add: continued_def succeed_def js_or_def persist_string)

lemma awaited_override:
  "truthy (override success) \<Longrightarrow>
   awaited e success failure (Resolves v) s =
     Fulfilled (do_effects [WritePersist (LogSymbol SymSuccess) Green (to_string success)] (stop (s\<lparr>lastResult := v\<rparr>)))"
  using override_truthy [of success]
  by (simp add: awaited_def succeed_def js_or_def persist_string)

lemma continued_override:
  "truthy (override success) \<Longrightarrow>
   continued e success failure (Resolves v) s =
     Fulfilled (do_effects [WritePersist (LogSymbol SymSuccess) Green (to_string success)] (stop s))"
  using override_truthy [of success]
  by (simp add: continued_def succeed_def js_or_def persist_string)

lemma on_failure_override:
  "truthy (override failure) \<Longrightarrow>
   on_failure e failure r s = Done (do_effects [WritePersist (LogSymbol SymError) RedBold (to_string failure)] (stop s))"
  using override_truthy [of failure]
  by (simp add: on_failure_def fail_def persist_string)

lemma on_failure_message:
  "\<not> truthy (override failure) \<Longrightarrow> get_prop r ''message'' = Inr (JStr m) \<Longrightarrow>
   on_failure e failure r s = Done (do_effects [WritePersist (LogSymbol SymError) RedBold m] (stop (s\<lparr>lastResult := r\<rparr>)))"
  by (simp add: on_failure_def fail_def persist_string)

lemma on_failure_colourless:
  assumes "\<not> truthy (override failure)" and "get_prop r ''message'' = Inr m" and "colourless m"
  shows "\<exists>z t. on_failure e failure r s
                 = Done (do_effects [WritePersist z RedBold t] (stop (s\<lparr>lastResult := r\<rparr>)))"
  using assms(1,2) persist_colourless [OF assms(3), of e SymError RedBold "s\<lparr>lastResult := r\<rparr>"]
  by (simp add: on_failure_def fail_def)

subsection \<open>Construction\<close>

lemmas demo_defs = demo_env_def demo_dots_def demo_line_def tty_def pipe_def demo_spinner_def

lemma new_demo:
  "new_Spinner (demo_env st) (ArgString t) = Inr (demo_spinner st (isTTY st) t)"
  by (simp add: new_Spinner_def demo_defs no_options_def Let_def set_text_def num_or_def)

lemma new_forced:
  "new_Spinner (demo_env pipe)
     (ArgOptions (no_options\<lparr>o_text := Some ''Loading'', o_isEnabled := Some True\<rparr>))
   = Inr (demo_spinner pipe True ''Loading'')"
  by (simp add: new_Spinner_def demo_defs no_options_def Let_def set_text_def num_or_def)

text \<open>
  C3, as stated, fails: a custom spinner whose \<open>frames\<close> is the empty sequence is accepted.
  The constructor only tests \<open>frames == null\<close>.
\<close>

theorem custom_empty_frames_accepted:
  "new_Spinner (demo_env (tty 80))
     (ArgOptions (no_options\<lparr>o_spinner := CustomSpinner \<lparr>a_frames = Some [], a_interval = None\<rparr>\<rparr>))
   = Inr ((demo_spinner (tty 80) True [])\<lparr>frames := [], interval := 100\<rparr>)"
  by (simp add: new_Spinner_def demo_defs no_options_def Let_def set_text_def num_or_def)

text \<open>
  C3, amended. With a custom spinner object, construction fails with the error
  \<open>Spinner must define `frames`\<close> exactly when the object has no \<open>frames\<close> (\<open>undefined\<close> or
  \<open>null\<close>); any frame sequence it declares, the empty one included, is accepted, and
  construction writes nothing.
\<close>

theorem custom_frames_must_be_defined:
  assumes "o_spinner opts = CustomSpinner a"
  shows "(a_frames a = None \<longrightarrow>
            new_Spinner e (ArgOptions opts) = Inl (Error ''Spinner must define `frames`''))
       \<and> (a_frames a \<noteq> None \<longrightarrow>
            (\<exists>s. new_Spinner e (ArgOptions opts) = Inr s \<and> Some (frames s) = a_frames a
                  \<and> effects s = [] \<and> linesToClear s = 0))"
  using assms by (auto simp: new_Spinner_def Let_def set_text_def)

theorem custom_frames_must_be_defined_witness:
  "new_Spinner (demo_env (tty 80))
     (ArgOptions (no_options\<lparr>o_spinner := CustomSpinner \<lparr>a_frames = None, a_interval = None\<rparr>\<rparr>))
     = Inl (Error ''Spinner must define `frames`'')
   \<and> (\<exists>s. new_Spinner (demo_env (tty 80))
         (ArgOptions (no_options\<lparr>o_spinner := CustomSpinner \<lparr>a_frames = Some [], a_interval = None\<rparr>\<rparr>))
         = Inr s \<and> frames s = [] \<and> effects s = [] \<and> linesToClear s = 0)"
  using custom_frames_must_be_defined
    [of "no_options\<lparr>o_spinner := CustomSpinner \<lparr>a_frames = None, a_interval = None\<rparr>\<rparr>"
        "\<lparr>a_frames = None, a_interval = None\<rparr>" "demo_env (tty 80)"]
    custom_frames_must_be_defined
    [of "no_options\<lparr>o_spinner := CustomSpinner \<lparr>a_frames = Some [], a_interval = None\<rparr>\<rparr>"
        "\<lparr>a_frames = Some [], a_interval = None\<rparr>" "demo_env (tty 80)"]
  by (simp add: no_options_def)

subsection \<open>The cached row count\<close>

lemma split_lines_no_newline: "CHR 10 \<notin> set s \<Longrightarrow> split_lines s = [s]"
  by (induction s) auto

lemma split_lines_prefix:
  "CHR 10 \<notin> set p \<Longrightarrow> split_lines (p @ s) = (p @ hd (split_lines s)) # tl (split_lines s)"
  using split_lines_not_Nil [of s]
  by (induction p) (auto split: list.splits)

text \<open>
  C4, as stated, fails on its second half: for the two lines \<open>a\<close> and \<open>bbbb\<close> on a terminal
  5 columns wide the setter caches 2 rows, while the sum of \<open>ceil((w + 2) / c)\<close> over the
  lines is 3. The prefix \<open>--\<close> is put in front of the text, hence of its first line only.
\<close>

theorem multi_line_prefix_counted_once:
  "lineCount (set_text (demo_env (tty 5)) [CHR ''a'', CHR 10, CHR ''b'', CHR ''b'', CHR ''b'', CHR ''b'']
       (demo_spinner (tty 5) True [])) = 2
   \<and> (\<Sum>l\<leftarrow>split_lines [CHR ''a'', CHR 10, CHR ''b'', CHR ''b'', CHR ''b'', CHR ''b''].
         max 1 (nat \<lceil>real (length l + 2) / real 5\<rceil>)) = 3"
  by (simp add: set_text_def demo_defs count_lines_def columns_or_80_def ceil_div_def)

text \<open>
  C4, amended. On a stream \<open>c > 0\<close> columns wide, for a text without escape codes whose
  characters are one column wide: a single line of \<open>w\<close> characters caches
  \<open>ceil((w + 2) / c)\<close> rows; a text of several lines caches \<open>ceil((w + 2) / c)\<close> rows for
  its first line, of \<open>w\<close> characters, plus \<open>max(1, ceil(w / c))\<close> rows for each further
  line: the 2-column prefix is counted once, on the first line.
\<close>

theorem row_count_of_text:
  assumes "columns (stream s) = Some c" and "0 < c"
    and "stripAnsi e (''--'' @ t) = ''--'' @ t"
    and "\<forall>l\<in>set (split_lines (''--'' @ t)). wcwidth e l = length l"
  shows "(CHR 10 \<notin> set t \<longrightarrow>
            lineCount (set_text e t s) = nat \<lceil>real (length t + 2) / real c\<rceil>)
       \<and> lineCount (set_text e t s) =
            nat \<lceil>real (length (hd (split_lines t)) + 2) / real c\<rceil>
            + (\<Sum>l\<leftarrow>tl (split_lines t). max 1 (nat \<lceil>real (length l) / real c\<rceil>))"
proof -
  have cols: "columns_or_80 (stream s) = c"
    using assms(1,2) by (simp add: columns_or_80_def)
  have sp: "split_lines (''--'' @ t) = (''--'' @ hd (split_lines t)) # tl (split_lines t)"
    by (rule split_lines_prefix) simp
  have w: "wcwidth e l = length l" if "l \<in> set (split_lines (''--'' @ t))" for l
    using assms(4) that by blast
  have w0: "wcwidth e (''--'' @ hd (split_lines t)) = length (hd (split_lines t)) + 2"
    using w [of "''--'' @ hd (split_lines t)"] sp by simp
  have wl: "wcwidth e l = length l" if "l \<in> set (tl (split_lines t))" for l
    using w [of l] sp that by simp
  have first: "1 \<le> ceil_div (length (hd (split_lines t)) + 2) c"
    using assms(2) by (simp add: ceil_div_def Suc_le_eq div_greater_zero_iff)
  have "lineCount (set_text e t s) = count_lines e c t"
    by (simp add: set_text_def cols)
  also have "\<dots> = (\<Sum>l\<leftarrow>split_lines (stripAnsi e (''--'' @ t)). max 1 (ceil_div (wcwidth e l) c))"
    by (rule count_lines_sum)
  also have "\<dots> = (\<Sum>l\<leftarrow>(''--'' @ hd (split_lines t)) # tl (split_lines t).
                       max 1 (ceil_div (wcwidth e l) c))"
    by (simp only: assms(3) sp)
  also have "\<dots> = max 1 (ceil_div (length (hd (split_lines t)) + 2) c)
                   + (\<Sum>l\<leftarrow>tl (split_lines t). max 1 (ceil_div (wcwidth e l) c))"
    by (simp only: list.map sum_list.Cons w0)
  also have "(\<Sum>l\<leftarrow>tl (split_lines t). max 1 (ceil_div (wcwidth e l) c))
           = (\<Sum>l\<leftarrow>tl (split_lines t). max 1 (ceil_div (length l) c))"
    by (rule arg_cong [where f = sum_list], rule map_cong) (simp_all add: wl)
  finally have gen: "lineCount (set_text e t s) =
       nat \<lceil>real (length (hd (split_lines t)) + 2) / real c\<rceil>
       + (\<Sum>l\<leftarrow>tl (split_lines t). max 1 (nat \<lceil>real (length l) / real c\<rceil>))"
    using first assms(2) by (simp add: ceil_div_ceiling max_def)
  moreover have "lineCount (set_text e t s) = nat \<lceil>real (length t + 2) / real c\<rceil>"
    if "CHR 10 \<notin> set t"
    using gen that by (simp add: split_lines_no_newline)
  ultimately show ?thesis by blast
qed

theorem row_count_of_text_witness:
  "lineCount (set_text (demo_env (tty 5)) ''Loading'' (demo_spinner (tty 5) True [])) = 2
   \<and> lineCount (set_text (demo_env (tty 5))
        [CHR ''a'', CHR 10, CHR ''b'', CHR ''b'', CHR ''b'', CHR ''b'', CHR 10]
        (demo_spinner (tty 5) True [])) = 3"
proof -
  have c: "columns (stream (demo_spinner (tty 5) True [])) = Some 5"
    by (simp add: demo_spinner_def tty_def)
  have a: "stripAnsi (demo_env (tty 5)) (''--'' @ t) = ''--'' @ t" for t
    by (simp add: demo_env_def)
  have w: "\<forall>l\<in>set (split_lines (''--'' @ t)). wcwidth (demo_env (tty 5)) l = length l" for t
    by (simp add: demo_env_def)
  show ?thesis
    using row_count_of_text [OF c _ a w, of "''Loading''"]
          row_count_of_text
            [OF c _ a w, of "[CHR ''a'', CHR 10, CHR ''b'', CHR ''b'', CHR ''b'', CHR ''b'', CHR 10]"]
    by simp
qed

subsection \<open>Clearing and drawing\<close>

lemma stream_apply_op: "stream (apply_op e s op) = stream s"
  by (cases op)
     (auto simp: apply_op_def set_text_def render_spinner_eq advance_def stream_clear start_def
        stop_def Let_def do_effects_def split: option.splits)

lemma stream_run: "stream (run e ops s) = stream s"
  unfolding run_def by (induction ops arbitrary: s) (simp_all add: stream_apply_op)

lemma render_off_terminal:
  assumes "isEnabled s" and "\<not> isTTY (stream s)"
  shows "render_spinner s =
           (advance s)\<lparr>effects := effects s @ [WriteFrame (color s) (glyph s) (label s)],
                        linesToClear := lineCount s\<rparr>"
  using assms by (simp add: render_spinner_eq clear_def)

lemma renders_off_terminal:
  assumes "isEnabled s" and "\<not> isTTY (stream s)"
  shows "isEnabled ((render_spinner ^^ n) s) \<and> \<not> isTTY (stream ((render_spinner ^^ n) s))
       \<and> take (length (effects s)) (effects ((render_spinner ^^ n) s)) = effects s
       \<and> length (effects ((render_spinner ^^ n) s)) = length (effects s) + n
       \<and> list_all is_frame (drop (length (effects s)) (effects ((render_spinner ^^ n) s)))"
proof (induction n)
  case 0
  show ?case using assms by simp
next
  case (Suc n)
  let ?r = "(render_spinner ^^ n) s"
  have r: "render_spinner ?r =
           (advance ?r)\<lparr>effects := effects ?r @ [WriteFrame (color ?r) (glyph ?r) (label ?r)],
                        linesToClear := lineCount ?r\<rparr>"
    using Suc by (intro render_off_terminal) simp_all
  show ?case using Suc
    by (simp add: r advance_def is_frame_def)
qed

lemma run_demo_tty:
  "run (demo_env (tty 5)) [OpStart None, OpSetText ''x'', OpRender]
     (demo_spinner (tty 5) True ''Loading'')
   = (demo_spinner (tty 5) True ''x'')\<lparr>timer := Some 80, frameIndex := Some 2, linesToClear := 1,
        effects := [HideCursor, WriteFrame Cyan (Some ''.'') ''Loading'', SetInterval 80,
                    ClearLine, CursorTo 0, MoveCursor 0 (- 1), ClearLine, CursorTo 0,
                    WriteFrame Cyan (Some ''o'') ''x'']\<rparr>"
  by (simp add: run_def apply_op_def start_def isSpinning_def render_spinner_eq clear_def
      do_effects_def advance_def glyph_def set_text_def Let_def erase_lines_def erase_line_def
      upt_rec demo_defs count_lines_def columns_or_80_def ceil_div_def)

lemma equal_prefix_widths:
  assumes "CHR 10 \<notin> set p" and "CHR 10 \<notin> set q" and "length p = length q"
  shows "map length (split_lines (p @ t)) = map length (split_lines (q @ t))"
  using assms by (simp add: split_lines_prefix)

lemma demo_one_column:
  "\<forall>g\<in>set (frames (demo_spinner st en v)). \<forall>t.
     map (wcwidth (demo_env st))
       (split_lines (stripAnsi (demo_env st)
          (coloured (demo_env st) (color (demo_spinner st en v)) (Some g) @ '' '' @ t)))
     = map (wcwidth (demo_env st)) (split_lines (stripAnsi (demo_env st) (''--'' @ t)))"
proof -
  have "map length (split_lines ((g @ '' '') @ t)) = map length (split_lines (''--'' @ t))"
    if "g \<in> {''.'', ''o'', ''O''}" for g t
    using that by (intro equal_prefix_widths) auto
  then show ?thesis by (simp add: demo_env_def demo_spinner_def)
qed

lemma new_wide:
  "new_Spinner (demo_env (tty 10)) (ArgOptions wide_options) = Inr wide_spinner"
  by (simp add: new_Spinner_def demo_defs wide_options_def wide_spinner_def no_options_def
      Let_def set_text_def num_or_def)

text \<open>
  C9, as stated, fails twice. On a spinner forced enabled on a stream that is not a
  terminal, one \<open>render()\<close> leaves \<open>linesToClear = 1\<close>, and the \<open>clear()\<close> that follows erases
  no row. And on a terminal 10 columns wide, the spinner with the one frame \<open>[======]\<close> and
  the text \<open>abcdefgh\<close> writes 17 columns, which take the rows 0 and 1, while \<open>render()\<close> leaves
  \<open>linesToClear = 1\<close>: the count is taken from the text behind a prefix of two columns, not
  from the frame that is written.
\<close>

theorem clear_off_terminal_erases_nothing:
  "linesToClear (render_spinner (demo_spinner pipe True ''Loading'')) = 1
   \<and> effects (clear (render_spinner (demo_spinner pipe True ''Loading'')))
       = effects (render_spinner (demo_spinner pipe True ''Loading''))
   \<and> cleared_lines (effects (clear (render_spinner (demo_spinner pipe True ''Loading'')))) = 0
   \<and> new_Spinner (demo_env (tty 10)) (ArgOptions wide_options) = Inr wide_spinner
   \<and> linesToClear (render_spinner wide_spinner) = 1
   \<and> used (terminal_after (demo_env (tty 10)) 10 (effects (render_spinner wide_spinner)))
       = {0 ..< 2}"
proof -
  have a: "linesToClear (render_spinner (demo_spinner pipe True ''Loading'')) = 1
   \<and> effects (clear (render_spinner (demo_spinner pipe True ''Loading'')))
       = effects (render_spinner (demo_spinner pipe True ''Loading''))
   \<and> cleared_lines (effects (clear (render_spinner (demo_spinner pipe True ''Loading'')))) = 0"
    by (simp add: render_spinner_eq clear_def demo_defs advance_def glyph_def count_lines_def
        columns_or_80_def ceil_div_def cleared_lines_def)
  have w: "render_spinner wide_spinner
           = wide_spinner\<lparr>frameIndex := Some 0, linesToClear := 1,
                effects := [WriteFrame Cyan (Some ''[======]'') ''abcdefgh'']\<rparr>"
    by (simp add: render_spinner_eq clear_def wide_spinner_def demo_defs advance_def glyph_def
        count_lines_def columns_or_80_def ceil_div_def erase_lines_def do_effects_def)
  have u: "used (terminal_after (demo_env (tty 10)) 10
             [WriteFrame Cyan (Some ''[======]'') ''abcdefgh'']) = {0 ..< 2}"
    by (simp add: terminal_after_def term_step_def written_def put_def home_def line_rows_def
        ceil_div_def demo_env_def Let_def)
  have l: "linesToClear (render_spinner wide_spinner) = 1"
    and v: "used (terminal_after (demo_env (tty 10)) 10 (effects (render_spinner wide_spinner)))
            = {0 ..< 2}"
    using u unfolding w by simp_all
  show ?thesis using a new_wide l v by blast
qed

text \<open>
  C9, amended. Take a spinner as constructed that is enabled, whose stream is a terminal
  reporting \<open>c > 0\<close> columns, and whose frames are not empty and one column wide: each frame,
  coloured and followed by the separating space, measures on every line, escape codes
  stripped, like the two-column prefix \<open>--\<close> that the text setter counts with. Let the
  cursor start at the beginning of an unused row of a terminal \<open>c\<close> columns wide. After
  any sequence of setting the text, \<open>render\<close>, \<open>start\<close>, \<open>stop\<close> and \<open>clear\<close>, the rows that
  hold output not erased since are exactly the first \<open>linesToClear\<close> rows, and the cursor
  is on the last of them (on the first row when \<open>linesToClear\<close> is 0). \<open>clear\<close> then makes
  exactly the erase calls of \<open>linesToClear\<close> rows, resets \<open>linesToClear\<close> to 0 and leaves the
  terminal with no used row and the cursor where it started. \<open>render\<close> first clears with
  the count left by the previous render, then writes the frame, and sets \<open>linesToClear\<close> to
  the row count of the text, which is the number of rows the written frame occupies. On
  any spinner that is disabled or whose stream is not a terminal, \<open>clear\<close> erases nothing
  and changes nothing, \<open>linesToClear\<close> included.
\<close>

theorem lines_to_clear_is_rows_on_screen:
  assumes "new_Spinner e arg = Inr sp"
    and "isEnabled sp" and "isTTY (stream sp)"
    and "columns (stream sp) = Some c" and "0 < c"
    and "frames sp \<noteq> []"
    and "\<forall>g\<in>set (frames sp). \<forall>t.
           map (wcwidth e) (split_lines (stripAnsi e (coloured e (color sp) (Some g) @ '' '' @ t)))
           = map (wcwidth e) (split_lines (stripAnsi e (''--'' @ t)))"
  shows "used (terminal_after e c (effects (run e ops sp)))
           = {0 ..< int (linesToClear (run e ops sp))}
       \<and> row (terminal_after e c (effects (run e ops sp)))
           = (if linesToClear (run e ops sp) = 0 then 0
              else int (linesToClear (run e ops sp)) - 1)
       \<and> effects (clear (run e ops sp))
           = effects (run e ops sp) @ erase_lines (linesToClear (run e ops sp))
       \<and> cleared_lines (erase_lines (linesToClear (run e ops sp)))
           = linesToClear (run e ops sp)
       \<and> linesToClear (clear (run e ops sp)) = 0
       \<and> terminal_after e c (effects (clear (run e ops sp))) = home
       \<and> effects (render_spinner (run e ops sp))
           = effects (clear (run e ops sp))
             @ [WriteFrame (color (run e ops sp)) (glyph (clear (run e ops sp)))
                  (label (run e ops sp))]
       \<and> linesToClear (render_spinner (run e ops sp)) = count_lines e c (label (run e ops sp))
       \<and> used (terminal_after e c (effects (render_spinner (run e ops sp))))
           = {0 ..< int (linesToClear (render_spinner (run e ops sp)))}
       \<and> (\<not> isEnabled u \<or> \<not> isTTY (stream u) \<longrightarrow> clear u = u)"
proof -
  define s where "s = run e ops sp"
  have st0: "steady e c sp" using assms(2-7) unfolding steady_def by blast
  have st: "steady e c s" using st0 by (simp add: s_def steady_run)
  have co: "coherent e c s"
    unfolding s_def using assms(1,4,5,6) st0 by (intro coherent_run coherent_new)
  have cr: "coherent e c (render_spinner s)" using st co by (rule coherent_render)
  have 1: "used (terminal_after e c (effects s)) = {0 ..< int (linesToClear s)}"
    and 2: "row (terminal_after e c (effects s))
            = (if linesToClear s = 0 then 0 else int (linesToClear s) - 1)"
    using co by (simp_all add: coherent_def)
  have 3: "effects (clear s) = effects s @ erase_lines (linesToClear s)"
    and 5: "linesToClear (clear s) = 0"
    using st by (simp_all add: steady_def clear_def do_effects_def)
  have 4: "cleared_lines (erase_lines (linesToClear s)) = linesToClear s"
    by (rule cleared_erase_lines)
  have 6: "terminal_after e c (effects (clear s)) = home"
    using st co by (rule terminal_clear)
  have 7: "effects (render_spinner s)
             = effects (clear s) @ [WriteFrame (color s) (glyph (clear s)) (label s)]"
    by (simp add: render_spinner_eq)
  have 8: "linesToClear (render_spinner s) = count_lines e c (label s)"
    using co by (simp add: render_spinner_eq coherent_def)
  have 9: "used (terminal_after e c (effects (render_spinner s)))
             = {0 ..< int (linesToClear (render_spinner s))}"
    using cr by (simp add: coherent_def)
  have 10: "\<not> isEnabled u \<or> \<not> isTTY (stream u) \<longrightarrow> clear u = u"
    by (simp add: clear_def)
  show ?thesis using 1 2 3 4 5 6 7 8 9 10 unfolding s_def by blast
qed

theorem lines_to_clear_is_rows_on_screen_witness:
  "new_Spinner (demo_env (tty 5)) (ArgString ''Loading'')
     = Inr (demo_spinner (tty 5) True ''Loading'')
   \<and> isEnabled (demo_spinner (tty 5) True ''Loading'')
   \<and> isTTY (stream (demo_spinner (tty 5) True ''Loading''))
   \<and> columns (stream (demo_spinner (tty 5) True ''Loading'')) = Some 5
   \<and> frames (demo_spinner (tty 5) True ''Loading'') = [''.'', ''o'', ''O'']
   \<and> linesToClear (run (demo_env (tty 5)) [OpStart None, OpSetText ''x'', OpRender]
        (demo_spinner (tty 5) True ''Loading'')) = 1
   \<and> used (terminal_after (demo_env (tty 5)) 5
        (effects (run (demo_env (tty 5)) [OpStart None, OpSetText ''x'', OpRender]
           (demo_spinner (tty 5) True ''Loading'')))) = {0 ..< 1}
   \<and> row (terminal_after (demo_env (tty 5)) 5
        (effects (run (demo_env (tty 5)) [OpStart None, OpSetText ''x'', OpRender]
           (demo_spinner (tty 5) True ''Loading'')))) = 0
   \<and> effects (clear (run (demo_env (tty 5)) [OpStart None, OpSetText ''x'', OpRender]
        (demo_spinner (tty 5) True ''Loading'')))
       = effects (run (demo_env (tty 5)) [OpStart None, OpSetText ''x'', OpRender]
           (demo_spinner (tty 5) True ''Loading'')) @ erase_lines 1
   \<and> linesToClear (clear (run (demo_env (tty 5)) [OpStart None, OpSetText ''x'', OpRender]
        (demo_spinner (tty 5) True ''Loading''))) = 0
   \<and> terminal_after (demo_env (tty 5)) 5
        (effects (clear (run (demo_env (tty 5)) [OpStart None, OpSetText ''x'', OpRender]
           (demo_spinner (tty 5) True ''Loading'')))) = home
   \<and> used (terminal_after (demo_env (tty 5)) 5
        (effects (render_spinner (run (demo_env (tty 5)) [OpStart None, OpSetText ''x'', OpRender]
           (demo_spinner (tty 5) True ''Loading'')))))
       = {0 ..< int (linesToClear (render_spinner
           (run (demo_env (tty 5)) [OpStart None, OpSetText ''x'', OpRender]
              (demo_spinner (tty 5) True ''Loading''))))}
   \<and> \<not> isTTY (stream (demo_spinner pipe True ''Loading''))
   \<and> clear (demo_spinner pipe True ''Loading'') = demo_spinner pipe True ''Loading''"
proof -
  have t: "new_Spinner (demo_env (tty 5)) (ArgString ''Loading'')
             = Inr (demo_spinner (tty 5) True ''Loading'')"
    using new_demo [of "tty 5" "''Loading''"] by (simp add: tty_def)
  have en: "isEnabled (demo_spinner (tty 5) True ''Loading'')"
    and it: "isTTY (stream (demo_spinner (tty 5) True ''Loading''))"
    and cs: "columns (stream (demo_spinner (tty 5) True ''Loading'')) = Some 5"
    and fs: "frames (demo_spinner (tty 5) True ''Loading'') = [''.'', ''o'', ''O'']"
    and fn: "frames (demo_spinner (tty 5) True ''Loading'') \<noteq> []"
    and np: "\<not> isTTY (stream (demo_spinner pipe True ''Loading''))"
    by (simp_all add: demo_spinner_def tty_def pipe_def)
  have lt: "linesToClear (run (demo_env (tty 5)) [OpStart None, OpSetText ''x'', OpRender]
              (demo_spinner (tty 5) True ''Loading'')) = 1"
    unfolding run_demo_tty by simp
  have pos: "0 < (5::nat)" by simp
  note th = lines_to_clear_is_rows_on_screen
              [where e = "demo_env (tty 5)" and arg = "ArgString ''Loading''"
                 and sp = "demo_spinner (tty 5) True ''Loading''" and c = 5
                 and ops = "[OpStart None, OpSetText ''x'', OpRender]"
                 and u = "demo_spinner pipe True ''Loading''",
               OF t en it cs pos fn demo_one_column]
  note th3 = th [THEN conjunct2, THEN conjunct2]
  note th5 = th3 [THEN conjunct2, THEN conjunct2]
  note th9 = th5 [THEN conjunct2, THEN conjunct2, THEN conjunct2, THEN conjunct2]
  have c1: "used (terminal_after (demo_env (tty 5)) 5
        (effects (run (demo_env (tty 5)) [OpStart None, OpSetText ''x'', OpRender]
           (demo_spinner (tty 5) True ''Loading'')))) = {0 ..< 1}"
    using th [THEN conjunct1] by (simp add: lt)
  have c2: "row (terminal_after (demo_env (tty 5)) 5
        (effects (run (demo_env (tty 5)) [OpStart None, OpSetText ''x'', OpRender]
           (demo_spinner (tty 5) True ''Loading'')))) = 0"
    using th [THEN conjunct2, THEN conjunct1] by (simp add: lt)
  have c3: "effects (clear (run (demo_env (tty 5)) [OpStart None, OpSetText ''x'', OpRender]
        (demo_spinner (tty 5) True ''Loading'')))
       = effects (run (demo_env (tty 5)) [OpStart None, OpSetText ''x'', OpRender]
           (demo_spinner (tty 5) True ''Loading'')) @ erase_lines 1"
    using th3 [THEN conjunct1] by (simp add: lt)
  have c10: "clear (demo_spinner pipe True ''Loading'') = demo_spinner pipe True ''Loading''"
    using th9 [THEN conjunct2] np by simp
  show ?thesis
    using t en it cs fs lt c1 c2 c3 th5 [THEN conjunct1] th5 [THEN conjunct2, THEN conjunct1]
          th9 [THEN conjunct1] np c10
    by blast
qed

text \<open>
  C10. On a spinner whose \<open>isEnabled\<close> is true while its stream is not a terminal,
  \<open>clear()\<close> returns the spinner as it is, with no erase call and \<open>linesToClear\<close> kept, and
  each \<open>render()\<close> adds exactly one frame to what was written before: after \<open>n\<close> renders the
  earlier output is still there, followed by \<open>n\<close> frames and nothing else.
\<close>

theorem forced_enabled_off_terminal_never_erases:
  assumes "isEnabled s" and "\<not> isTTY (stream s)"
  shows "clear s = s
       \<and> effects (render_spinner s) = effects s @ [WriteFrame (color s) (glyph s) (label s)]
       \<and> take (length (effects s)) (effects ((render_spinner ^^ n) s)) = effects s
       \<and> length (effects ((render_spinner ^^ n) s)) = length (effects s) + n
       \<and> list_all is_frame (drop (length (effects s)) (effects ((render_spinner ^^ n) s)))"
  using assms renders_off_terminal [OF assms, of n]
  by (simp add: render_off_terminal clear_def)

theorem forced_enabled_off_terminal_never_erases_witness:
  "new_Spinner (demo_env pipe)
     (ArgOptions (no_options\<lparr>o_text := Some ''Loading'', o_isEnabled := Some True\<rparr>))
     = Inr (demo_spinner pipe True ''Loading'')
   \<and> clear (demo_spinner pipe True ''Loading'') = demo_spinner pipe True ''Loading''
   \<and> effects (render_spinner (demo_spinner pipe True ''Loading''))
       = [WriteFrame Cyan (glyph (demo_spinner pipe True ''Loading'')) ''Loading'']
   \<and> length (effects ((render_spinner ^^ 3) (demo_spinner pipe True ''Loading''))) = 3
   \<and> list_all is_frame (effects ((render_spinner ^^ 3) (demo_spinner pipe True ''Loading'')))"
proof -
  have en: "isEnabled (demo_spinner pipe True ''Loading'')"
    and nt: "\<not> isTTY (stream (demo_spinner pipe True ''Loading''))"
    and ef: "effects (demo_spinner pipe True ''Loading'') = []"
    and co: "color (demo_spinner pipe True ''Loading'') = Cyan"
    and la: "label (demo_spinner pipe True ''Loading'') = ''Loading''"
    by (simp_all add: demo_spinner_def pipe_def)
  show ?thesis
    using forced_enabled_off_terminal_never_erases [OF en nt, of 3] new_forced
    by (simp add: ef co la)
qed

subsection \<open>The wrapper\<close>

lemma lastResult_new: "new_Spinner e arg = Inr s \<Longrightarrow> lastResult s = JNull"
  by (auto simp: new_Spinner_def Let_def set_text_def split: option.splits)

lemma lastResult_clear [simp]: "lastResult (clear s) = lastResult s"
  by (simp add: clear_def do_effects_def)

lemma lastResult_start [simp]: "lastResult (start e t s) = lastResult s"
  by (auto simp: start_def Let_def set_text_def render_spinner_eq advance_def do_effects_def
      split: option.splits)

lemma awaited_colourless:
  assumes "\<not> truthy (override success)" and "colourless v"
  shows "\<exists>z t. awaited e success failure (Resolves v) s =
           Fulfilled (do_effects [WritePersist z Green t] (stop (s\<lparr>lastResult := v\<rparr>)))"
proof -
  obtain z t where "stopAndPersist e (with_defaults SymSuccess Green v) (s\<lparr>lastResult := v\<rparr>)
      = Done (do_effects [WritePersist z Green t] (stop (s\<lparr>lastResult := v\<rparr>)))"
    using persist_colourless [OF assms(2)] by blast
  then have "awaited e success failure (Resolves v) s =
           Fulfilled (do_effects [WritePersist z Green t] (stop (s\<lparr>lastResult := v\<rparr>)))"
    using assms(1) by (simp add: awaited_def succeed_def js_or_def)
  then show ?thesis by blast
qed

lemma continued_colourless:
  assumes "\<not> truthy (override success)" and "colourless v"
  shows "\<exists>z t. continued e success failure (Resolves v) s =
           Fulfilled (do_effects [WritePersist z Green t] (stop (s\<lparr>lastResult := v\<rparr>)))"
proof -
  obtain z t where "stopAndPersist e (with_defaults SymSuccess Green v) (s\<lparr>lastResult := v\<rparr>)
      = Done (do_effects [WritePersist z Green t] (stop (s\<lparr>lastResult := v\<rparr>)))"
    using persist_colourless [OF assms(2)] by blast
  then have "continued e success failure (Resolves v) s =
           Fulfilled (do_effects [WritePersist z Green t] (stop (s\<lparr>lastResult := v\<rparr>)))"
    using assms(1) by (simp add: continued_def succeed_def)
  then show ?thesis by blast
qed

lemma rejected_awaited [simp]: "awaited e success failure (Rejects r) s = settled (on_failure e failure r s)"
  by (simp add: awaited_def)

lemma rejected_continued [simp]: "continued e success failure (Rejects r) s = settled (on_failure e failure r s)"
  by (simp add: continued_def)

lemma settled_Done [simp]: "settled (Done s) = Fulfilled s"
  by (simp add: settled_def)

lemma chained_cases:
  assumes "new_Spinner e opts = Inr s0" and "a = AsyncFn st \<or> a = PromiseObj st"
  shows "chained (promise_body e n a opts (Some (success, failure))) =
           (if a = AsyncFn st then awaited e success failure st ((tick ^^ n) (start e None s0))
            else continued e success failure st ((tick ^^ n) (start e None s0)))"
  using assms by (auto simp: body_AsyncFn body_PromiseObj Let_def)

text \<open>
  C5, as stated, fails. An action that resolves with \<open>undefined\<close>, with no override, leaves
  the spinner's own text \<open>Loading\<close> in the persisted line, not the string \<open>undefined\<close>; and
  the empty string given as success override is not used: the line shows the result.
\<close>

theorem wrapper_text_not_stringified:
  "persisted (chained (promise_body (demo_env pipe) 0 (AsyncFn (Resolves JUndefined))
      (ArgString ''Loading'') (Some (JUndefined, JUndefined))))
     = Some (LogSymbol SymSuccess, Green, ''Loading'')
   \<and> to_string JUndefined = ''undefined''
   \<and> persisted (chained (promise_body (demo_env pipe) 0 (AsyncFn (Resolves (JStr ''ok'')))
      (ArgString ''Loading'') (Some (JStr [], JUndefined))))
     = Some (LogSymbol SymSuccess, Green, ''ok'')"
  unfolding body_AsyncFn [OF new_demo]
  by (simp add: awaited_def succeed_def js_or_def override_def Let_def
      persist_string persist_no_text own_props_def merged_def start_def do_effects_def
      persisted_def stop_def
      demo_spinner_def pipe_def)

text \<open>
  C5, amended. For an action that is an async function or a promise in flight, once it has
  settled: if it resolves with a string \<open>v\<close> and the success override is absent or empty,
  the persisted line is the success line with text \<open>v\<close>; if it rejects with a reason whose
  \<open>message\<close> is a string \<open>m\<close>, as every \<open>Error\<close> has, and the failure override is absent or
  empty, it is the fail line with text \<open>m\<close>; a non-empty success (failure) override string
  is the text of the success (fail) line whatever the value (reason).
\<close>

theorem wrapper_persisted_text:
  assumes "new_Spinner e opts = Inr s0" and "a = AsyncFn st \<or> a = PromiseObj st"
  shows "(st = Resolves (JStr v) \<and> \<not> truthy (override success) \<longrightarrow>
            persisted (chained (promise_body e n a opts (Some (success, failure))))
              = Some (LogSymbol SymSuccess, Green, v))
       \<and> (st = Rejects r \<and> get_prop r ''message'' = Inr (JStr m) \<and> \<not> truthy (override failure) \<longrightarrow>
            persisted (chained (promise_body e n a opts (Some (success, failure))))
              = Some (LogSymbol SymError, RedBold, m))
       \<and> (st = Resolves w \<and> success = JStr x \<and> x \<noteq> [] \<longrightarrow>
            persisted (chained (promise_body e n a opts (Some (success, failure))))
              = Some (LogSymbol SymSuccess, Green, x))
       \<and> (st = Rejects r \<and> failure = JStr y \<and> y \<noteq> [] \<longrightarrow>
            persisted (chained (promise_body e n a opts (Some (success, failure))))
              = Some (LogSymbol SymError, RedBold, y))"
proof -
  have ox: "truthy (override (JStr x))" if "x \<noteq> []" for x
    using that by (simp add: override_def)
  show ?thesis
    unfolding chained_cases [OF assms]
    by (auto simp: awaited_string continued_string on_failure_message
        awaited_override continued_override on_failure_override ox)
qed

theorem wrapper_persisted_text_witness:
  "persisted (chained (promise_body (demo_env pipe) 2 (AsyncFn (Resolves (JStr ''done'')))
      (ArgString ''Loading'') (Some (JUndefined, JUndefined))))
     = Some (LogSymbol SymSuccess, Green, ''done'')
   \<and> persisted (chained (promise_body (demo_env pipe) 2 (PromiseObj (Rejects (JError ''Error'' ''boom'')))
      (ArgString ''Loading'') (Some (JUndefined, JNull))))
     = Some (LogSymbol SymError, RedBold, ''boom'')
   \<and> persisted (chained (promise_body (demo_env pipe) 2 (PromiseObj (Resolves (JNum 42)))
      (ArgString ''Loading'') (Some (JStr ''Saved'', JUndefined))))
     = Some (LogSymbol SymSuccess, Green, ''Saved'')
   \<and> persisted (chained (promise_body (demo_env pipe) 2 (AsyncFn (Rejects JUndefined))
      (ArgString ''Loading'') (Some (JUndefined, JStr ''Failed''))))
     = Some (LogSymbol SymError, RedBold, ''Failed'')"
proof -
  have n: "new_Spinner (demo_env pipe) (ArgString ''Loading'')
             = Inr (demo_spinner pipe (isTTY pipe) ''Loading'')"
    by (rule new_demo)
  show ?thesis
    using wrapper_persisted_text
            [where a = "AsyncFn (Resolves (JStr ''done''))" and st = "Resolves (JStr ''done'')"
               and v = "''done''" and success = JUndefined and failure = JUndefined and n = 2,
             OF n]
          wrapper_persisted_text
            [where a = "PromiseObj (Rejects (JError ''Error'' ''boom''))"
               and st = "Rejects (JError ''Error'' ''boom'')" and r = "JError ''Error'' ''boom''"
               and m = "''boom''" and success = JUndefined and failure = JNull and n = 2,
             OF n]
          wrapper_persisted_text
            [where a = "PromiseObj (Resolves (JNum 42))" and st = "Resolves (JNum 42)"
               and w = "JNum 42" and x = "''Saved''" and success = "JStr ''Saved''"
               and failure = JUndefined and n = 2,
             OF n]
          wrapper_persisted_text
            [where a = "AsyncFn (Rejects JUndefined)" and st = "Rejects JUndefined"
               and r = JUndefined and y = "''Failed''" and success = JUndefined
               and failure = "JStr ''Failed''" and n = 2,
             OF n]
    by (simp add: override_def)
qed

text \<open>
  C6, as stated, fails. The wrapper is an async function: called with the number 42 it
  throws nothing to its caller and returns a promise rejected with the \<open>TypeError\<close>; and
  when the action rejects with \<open>undefined\<close>, reading the reason's \<open>message\<close> throws inside
  the \<open>catch\<close>, so that the wrapper's promise is rejected.
\<close>

theorem wrapper_rejects_not_throws:
  "promise (demo_env pipe) 0 (Plain (JNum 42)) ArgNone (Some (JUndefined, JUndefined)) =
     Returns \<lparr>returned = Rejected (JError ''TypeError''
                               ''Parameter `action` must be a Promise or an async function''),
              chained = Rejected (JError ''TypeError''
                               ''Parameter `action` must be a Promise or an async function'')\<rparr>
   \<and> promise (demo_env pipe) 0 (Plain (JNum 42)) ArgNone (Some (JUndefined, JUndefined)) \<noteq>
     Throws (JError ''TypeError'' ''Parameter `action` must be a Promise or an async function'')
   \<and> promise (demo_env pipe) 0 (AsyncFn (Rejects JUndefined)) ArgNone (Some (JUndefined, JUndefined)) =
     Returns \<lparr>returned = Rejected (JError ''TypeError'' ''Cannot read properties of undefined''),
              chained = Rejected (JError ''TypeError'' ''Cannot read properties of undefined'')\<rparr>"
  by (simp add: promise_def promise_body_def instanceof_Promise_def isAsyncFunction_def Let_def
      new_Spinner_def no_options_def demo_defs awaited_def on_failure_def override_def settled_def
      thrown_def)

text \<open>
  C6, amended. For every argument that is neither a \<open>Promise\<close> nor accepted by
  \<open>isAsyncFunction\<close>, the wrapper builds no spinner and returns a promise rejected with the
  \<open>TypeError\<close>. When the action rejects and either a non-empty failure override is given or
  the reason is not \<open>null\<close> or \<open>undefined\<close> and its \<open>message\<close> is a string or absent, the
  wrapper's promise is fulfilled and the failure ends as a persisted fail line.
\<close>

theorem wrapper_failures:
  "(\<not> (instanceof_Promise a \<or> isAsyncFunction a) \<longrightarrow>
      promise e n a opts (Some (success, failure)) =
        Returns \<lparr>returned = Rejected (JError ''TypeError''
                               ''Parameter `action` must be a Promise or an async function''),
                 chained = Rejected (JError ''TypeError''
                               ''Parameter `action` must be a Promise or an async function'')\<rparr>)
   \<and> (new_Spinner e opts = Inr sp \<and> (a = AsyncFn (Rejects r) \<or> a = PromiseObj (Rejects r))
        \<and> (truthy (override failure)
             \<or> get_prop r ''message'' = Inr JUndefined \<or> (\<exists>m. get_prop r ''message'' = Inr (JStr m)))
      \<longrightarrow> (\<exists>s s' t. promise e n a opts (Some (success, failure)) =
                        Returns \<lparr>returned = Fulfilled s, chained = Fulfilled s'\<rparr>
                    \<and> persisted (Fulfilled s') = Some (LogSymbol SymError, RedBold, t)))"
proof (intro conjI impI)
  assume "\<not> (instanceof_Promise a \<or> isAsyncFunction a)"
  then show "promise e n a opts (Some (success, failure)) =
        Returns \<lparr>returned = Rejected (JError ''TypeError''
                               ''Parameter `action` must be a Promise or an async function''),
                 chained = Rejected (JError ''TypeError''
                               ''Parameter `action` must be a Promise or an async function'')\<rparr>"
    by (simp add: promise_def promise_body_def Let_def)
next
  assume h: "new_Spinner e opts = Inr sp \<and> (a = AsyncFn (Rejects r) \<or> a = PromiseObj (Rejects r))
        \<and> (truthy (override failure)
             \<or> get_prop r ''message'' = Inr JUndefined \<or> (\<exists>m. get_prop r ''message'' = Inr (JStr m)))"
  let ?s = "(tick ^^ n) (start e None sp)"
  have "\<exists>s' t. on_failure e failure r ?s = Done s' \<and> persisted (Fulfilled s') = Some (LogSymbol SymError, RedBold, t)"
  proof (cases "truthy (override failure)")
    case True
    then show ?thesis by (simp add: on_failure_override)
  next
    case False
    with h consider "get_prop r ''message'' = Inr JUndefined" | m where "get_prop r ''message'' = Inr (JStr m)"
      by blast
    then show ?thesis
    proof cases
      case 1
      with False show ?thesis
        by (simp add: on_failure_def fail_def persist_no_text own_props_def merged_def)
    next
      case 2
      with False show ?thesis by (simp add: on_failure_message)
    qed
  qed
  then obtain s' t where d: "on_failure e failure r ?s = Done s'"
    and p: "persisted (Fulfilled s') = Some (LogSymbol SymError, RedBold, t)" by blast
  from h have "a = AsyncFn (Rejects r) \<or> a = PromiseObj (Rejects r)" by blast
  then show "\<exists>s s' t. promise e n a opts (Some (success, failure)) =
                        Returns \<lparr>returned = Fulfilled s, chained = Fulfilled s'\<rparr>
                    \<and> persisted (Fulfilled s') = Some (LogSymbol SymError, RedBold, t)"
  proof
    assume "a = AsyncFn (Rejects r)"
    with h d p show ?thesis by (auto simp: promise_def body_AsyncFn Let_def)
  next
    assume "a = PromiseObj (Rejects r)"
    with h d p show ?thesis by (auto simp: promise_def body_PromiseObj)
  qed
qed

theorem wrapper_failures_witness:
  "promise (demo_env pipe) 1 (Plain (JStr ''later'')) (ArgString ''Loading'') (Some (JUndefined, JUndefined)) =
     Returns \<lparr>returned = Rejected (JError ''TypeError''
                               ''Parameter `action` must be a Promise or an async function''),
              chained = Rejected (JError ''TypeError''
                               ''Parameter `action` must be a Promise or an async function'')\<rparr>
   \<and> (\<exists>s s' t. promise (demo_env pipe) 1 (AsyncFn (Rejects (JError ''Error'' ''boom'')))
                   (ArgString ''Loading'') (Some (JUndefined, JUndefined)) =
                 Returns \<lparr>returned = Fulfilled s, chained = Fulfilled s'\<rparr>
               \<and> persisted (Fulfilled s') = Some (LogSymbol SymError, RedBold, t))"
proof -
  have n: "new_Spinner (demo_env pipe) (ArgString ''Loading'')
             = Inr (demo_spinner pipe (isTTY pipe) ''Loading'')"
    by (rule new_demo)
  show ?thesis
    using wrapper_failures
            [where a = "Plain (JStr ''later'')" and e = "demo_env pipe" and n = 1
               and opts = "ArgString ''Loading''" and success = JUndefined and failure = JUndefined]
          wrapper_failures
            [where a = "AsyncFn (Rejects (JError ''Error'' ''boom''))" and e = "demo_env pipe"
               and n = 1 and opts = "ArgString ''Loading''" and success = JUndefined
               and failure = JUndefined and sp = "demo_spinner pipe (isTTY pipe) ''Loading''"
               and r = "JError ''Error'' ''boom''"]
          n
    by (simp add: instanceof_Promise_def isAsyncFunction_def)
qed

text \<open>
  C7, as stated, fails: for a promise in flight the wrapper does not wait. The promise it
  returns is fulfilled at once, with \<open>lastResult\<close> still \<open>null\<close>.
\<close>

theorem last_result_unset_for_promise:
  "result_of (returned (promise_body (demo_env pipe) 0 (PromiseObj (Resolves (JStr ''ok'')))
      (ArgString ''Loading'') (Some (JUndefined, JUndefined)))) = Some JNull"
  unfolding body_PromiseObj [OF new_demo]
  by (simp add: result_of_def demo_defs)

text \<open>
  C7, amended. Call a value colourless when it has no \<open>color\<close> property: every primitive,
  every \<open>Error\<close>, every object without one. For an async function: if it resolves with \<open>v\<close>
  and either a non-empty success override is given or \<open>v\<close> is colourless, the wrapper's
  promise is fulfilled with \<open>lastResult\<close> being \<open>v\<close>; if it rejects with a reason \<open>r\<close>, not
  \<open>null\<close> or \<open>undefined\<close>, whose \<open>message\<close> is colourless, and the failure override is absent
  or empty, the wrapper's promise is fulfilled with \<open>lastResult\<close> being \<open>r\<close>. For a promise in
  flight the wrapper's promise is fulfilled at once with \<open>lastResult\<close> still \<open>null\<close>; once the
  action has settled, \<open>lastResult\<close> is the colourless value it resolved with when the success
  override is absent or empty, and the reason it rejected with, under the conditions above
  for a reason.
\<close>

theorem last_result_at_resolution:
  assumes "new_Spinner e opts = Inr s0"
  shows "(truthy (override success) \<or> colourless v \<longrightarrow>
            result_of (returned (promise_body e n (AsyncFn (Resolves v)) opts (Some (success, failure))))
              = Some v)
       \<and> (\<not> truthy (override failure) \<and> get_prop r ''message'' = Inr m \<and> colourless m \<longrightarrow>
            result_of (returned (promise_body e n (AsyncFn (Rejects r)) opts (Some (success, failure))))
              = Some r)
       \<and> result_of (returned (promise_body e n (PromiseObj st) opts (Some (success, failure))))
            = Some JNull
       \<and> (\<not> truthy (override success) \<and> colourless v \<longrightarrow>
            result_of (chained (promise_body e n (PromiseObj (Resolves v)) opts (Some (success, failure))))
              = Some v)
       \<and> (\<not> truthy (override failure) \<and> get_prop r ''message'' = Inr m \<and> colourless m \<longrightarrow>
            result_of (chained (promise_body e n (PromiseObj (Rejects r)) opts (Some (success, failure))))
              = Some r)"
proof -
  let ?s = "(tick ^^ n) (start e None s0)"
  have a1: "result_of (awaited e success failure (Resolves v) ?s) = Some v"
    if h: "truthy (override success) \<or> colourless v"
  proof (cases "truthy (override success)")
    case True
    then show ?thesis by (simp add: awaited_override)
  next
    case False
    with h obtain z t where "awaited e success failure (Resolves v) ?s =
           Fulfilled (do_effects [WritePersist z Green t] (stop (?s\<lparr>lastResult := v\<rparr>)))"
      using awaited_colourless [of success v e failure ?s] by blast
    then show ?thesis by simp
  qed
  have f1: "result_of (settled (on_failure e failure r ?s)) = Some r"
    if h: "\<not> truthy (override failure) \<and> get_prop r ''message'' = Inr m \<and> colourless m"
  proof -
    obtain z t where "on_failure e failure r ?s
        = Done (do_effects [WritePersist z RedBold t] (stop (?s\<lparr>lastResult := r\<rparr>)))"
      using on_failure_colourless [of failure r m e ?s] h by blast
    then show ?thesis by simp
  qed
  have c1: "result_of (continued e success failure (Resolves v) ?s) = Some v"
    if h: "\<not> truthy (override success) \<and> colourless v"
  proof -
    obtain z t where "continued e success failure (Resolves v) ?s =
           Fulfilled (do_effects [WritePersist z Green t] (stop (?s\<lparr>lastResult := v\<rparr>)))"
      using continued_colourless [of success v e failure ?s] h by blast
    then show ?thesis by simp
  qed
  have n1: "result_of (Fulfilled (start e None s0)) = Some JNull"
    using lastResult_new [OF assms] by (simp add: result_of_def)
  show ?thesis
    using a1 f1 c1 n1
    by (simp add: body_AsyncFn [OF assms] body_PromiseObj [OF assms] Let_def)
qed

theorem last_result_at_resolution_witness:
  "result_of (returned (promise_body (demo_env pipe) 1 (AsyncFn (Resolves (JNum 42)))
      (ArgString ''Loading'') (Some (JUndefined, JUndefined)))) = Some (JNum 42)
   \<and> result_of (returned (promise_body (demo_env pipe) 1 (AsyncFn (Rejects (JError ''Error'' ''boom'')))
      (ArgString ''Loading'') (Some (JUndefined, JUndefined)))) = Some (JError ''Error'' ''boom'')
   \<and> result_of (returned (promise_body (demo_env pipe) 1 (PromiseObj (Resolves (JNum 42)))
      (ArgString ''Loading'') (Some (JUndefined, JUndefined)))) = Some JNull
   \<and> result_of (chained (promise_body (demo_env pipe) 1 (PromiseObj (Resolves (JNum 42)))
      (ArgString ''Loading'') (Some (JUndefined, JUndefined)))) = Some (JNum 42)
   \<and> result_of (chained (promise_body (demo_env pipe) 1 (PromiseObj (Rejects (JError ''Error'' ''boom'')))
      (ArgString ''Loading'') (Some (JUndefined, JUndefined)))) = Some (JError ''Error'' ''boom'')"
proof -
  have n: "new_Spinner (demo_env pipe) (ArgString ''Loading'')
             = Inr (demo_spinner pipe (isTTY pipe) ''Loading'')"
    by (rule new_demo)
  show ?thesis
    using last_result_at_resolution
            [where success = JUndefined and failure = JUndefined and v = "JNum 42"
               and r = "JError ''Error'' ''boom''" and m = "JStr ''boom''" and n = 1
               and st = "Resolves (JNum 42)",
             OF n]
    by (simp add: override_def)
qed

end
